theory Spec2Isabelle
  imports Complex_Main
begin

section \<open>The question paper model of App.tsx\<close>

subsection \<open>JavaScript values\<close>

text \<open>
  Questions are held in an array typed \<^verbatim>\<open>any[]\<close>, and the replies of the generation
  service are whatever \<^verbatim>\<open>JSON.parse\<close> returns, so the fields of a question and the
  replies are JavaScript values. Their numbers are restricted to whole numbers. An object is
  its list of properties; the first entry of a key is the property.
\<close>

datatype jsval =
    Undefined
  | Null
  | Bool bool
  | Num int
  | Str string
  | Arr "jsval list"
  | Obj "(string \<times> jsval) list"

text \<open>Truthiness, as \<^verbatim>\<open>||\<close>, \<^verbatim>\<open>!\<close> and \<^verbatim>\<open>if\<close> read a value.\<close>

fun truthy :: "jsval \<Rightarrow> bool" where
  "truthy Undefined = False"
| "truthy Null = False"
| "truthy (Bool b) = b"
| "truthy (Num n) = (n \<noteq> 0)"
| "truthy (Str s) = (s \<noteq> [])"
| "truthy (Arr xs) = True"
| "truthy (Obj kvs) = True"

fun nullish :: "jsval \<Rightarrow> bool" where
  "nullish Undefined = True"
| "nullish Null = True"
| "nullish v = False"

text \<open>The decimal text of a natural number, as a template literal or a property key.\<close>

function show_nat :: "nat \<Rightarrow> string" where
  "show_nat n =
     (if n < 10 then [''0123456789'' ! n]
      else show_nat (n div 10) @ [''0123456789'' ! (n mod 10)])"
  by pat_completeness auto
termination
  by (relation "measure (\<lambda>n. n)") auto

declare show_nat.simps [simp del]

text \<open>
  \<^verbatim>\<open>v[i]\<close> and \<^verbatim>\<open>v.name\<close> on a value that is neither \<^verbatim>\<open>null\<close> nor
  \<^verbatim>\<open>undefined\<close> (on those the access throws a TypeError, which the callers below
  write out). The names the program reads (\<^verbatim>\<open>candidates\<close>, \<^verbatim>\<open>content\<close>,
  \<^verbatim>\<open>parts\<close>, \<^verbatim>\<open>text\<close>, \<^verbatim>\<open>options\<close>, \<^verbatim>\<open>bloom\<close>, \<^verbatim>\<open>co\<close>) are
  no built-in property of an array, a string, a number or a boolean, so only an object
  can have them.
\<close>

fun get_index :: "jsval \<Rightarrow> nat \<Rightarrow> jsval" where
  "get_index (Arr xs) i = (if i < length xs then xs ! i else Undefined)"
| "get_index (Str s) i = (if i < length s then Str [s ! i] else Undefined)"
| "get_index (Obj kvs) i = (case map_of kvs (show_nat i) of Some v \<Rightarrow> v | None \<Rightarrow> Undefined)"
| "get_index v i = Undefined"

fun get_named :: "jsval \<Rightarrow> string \<Rightarrow> jsval" where
  "get_named (Obj kvs) k = (case map_of kvs k of Some v \<Rightarrow> v | None \<Rightarrow> Undefined)"
| "get_named v k = Undefined"

text \<open>Optional chaining: \<^verbatim>\<open>v?.[i]\<close> and \<^verbatim>\<open>v?.name\<close>.\<close>

definition opt_index :: "jsval \<Rightarrow> nat \<Rightarrow> jsval" where
  "opt_index v i = (if nullish v then Undefined else get_index v i)"

definition opt_named :: "jsval \<Rightarrow> string \<Rightarrow> jsval" where
  "opt_named v k = (if nullish v then Undefined else get_named v k)"

subsection \<open>Numbers and the texts of number inputs\<close>

text \<open>
  A number is NaN, an infinity or a finite value. A finite value is written as the exact
  real number it stands for; \<^verbatim>\<open>-0\<close> is not told from \<^verbatim>\<open>0\<close>.
\<close>

datatype js_number = NaN | PosInf | NegInf | Fin real

text \<open>
  A count of a section (\<^verbatim>\<open>qCount\<close>, \<^verbatim>\<open>attemptCount\<close>, \<^verbatim>\<open>marksPerQ\<close>) holds a
  number, as in the default sections and after \<^verbatim>\<open>parseInt\<close>, or the text of a number
  input: the blueprint passes \<^verbatim>\<open>e.target.value\<close> to \<^verbatim>\<open>updateSection\<close>, which
  stores it as it comes.
\<close>

datatype count_value = Number js_number | Text string

text \<open>
  Two conversions of the JavaScript runtime are parameters of the model: the built-in
  \<^verbatim>\<open>parseInt\<close>, applied to a count, and the conversion of a text to a number that
  \<^verbatim>\<open><\<close>, \<^verbatim>\<open>></\<close>, \<^verbatim>\<open>-\<close> and \<^verbatim>\<open>slice\<close> apply to an operand that is a text. The
  rounding of a written number to a double is part of these conversions.
\<close>

record runtime =
  parseInt :: "count_value \<Rightarrow> js_number"
  stringToNumber :: "string \<Rightarrow> js_number"

definition to_number :: "runtime \<Rightarrow> count_value \<Rightarrow> js_number" where
  "to_number rt v = (case v of Number n \<Rightarrow> n | Text t \<Rightarrow> stringToNumber rt t)"

text \<open>\<^verbatim>\<open>a < b\<close> on numbers: false as soon as one of them is NaN.\<close>

fun js_less :: "js_number \<Rightarrow> js_number \<Rightarrow> bool" where
  "js_less (Fin a) (Fin b) = (a < b)"
| "js_less (Fin a) PosInf = True"
| "js_less NegInf (Fin b) = True"
| "js_less NegInf PosInf = True"
| "js_less a b = False"

text \<open>
  \<^verbatim>\<open>x - len\<close> for the length of an array. On doubles the difference is exact as long
  as it is below \<open>2 ^ 53\<close>, and no array holds that many elements.
\<close>

fun minus_length :: "js_number \<Rightarrow> nat \<Rightarrow> js_number" where
  "minus_length (Fin a) len = Fin (a - of_nat len)"
| "minus_length x len = x"

text \<open>
  \<^verbatim>\<open>Array.prototype.slice(start, end)\<close>: an index is truncated towards zero, NaN
  counting as 0; a negative index counts from the end of the array, and both indices are
  clamped to the array.
\<close>

definition to_integer :: "real \<Rightarrow> int" where
  "to_integer r = (if 0 \<le> r then \<lfloor>r\<rfloor> else \<lceil>r\<rceil>)"

fun relative_index :: "js_number \<Rightarrow> nat \<Rightarrow> nat" where
  "relative_index NaN len = 0"
| "relative_index PosInf len = len"
| "relative_index NegInf len = 0"
| "relative_index (Fin r) len =
     (if to_integer r < 0 then nat (max (int len + to_integer r) 0)
      else nat (min (to_integer r) (int len)))"

definition slice :: "js_number \<Rightarrow> js_number \<Rightarrow> 'a list \<Rightarrow> 'a list" where
  "slice start stop xs =
     (let from = relative_index start (length xs);
          to = relative_index stop (length xs)
      in take (to - from) (drop from xs))"

text \<open>
  An array holds at most \<open>2 ^ 32 - 1\<close> elements: \<^verbatim>\<open>push\<close> on an array of that length
  throws a RangeError. (A browser runs out of memory long before; that is not modelled.)
\<close>

definition max_array_length :: nat where
  "max_array_length = 4294967295"

subsection \<open>Errors\<close>

datatype error =
    TypeError
  | RangeError
  | SyntaxError
  | NetworkError string
  | ApiError nat

text \<open>The next handler runs on the state that the one before returned.\<close>

definition and_then :: "error + 'a \<Rightarrow> ('a \<Rightarrow> error + 'b) \<Rightarrow> error + 'b" where
  "and_then r f = (case r of Inl err \<Rightarrow> Inl err | Inr x \<Rightarrow> f x)"

subsection \<open>Metadata, sections and questions\<close>

record meta =
  universityName :: string
  schoolName :: string
  branch :: string
  semester :: string
  specializations :: string
  academicYear :: string
  examType :: string
  courseCode :: string
  courseName :: string
  examDate :: string
  startTime :: string
  endTime :: string
  instructions :: string

text \<open>
  A question as \<^verbatim>\<open>initializeBuilder\<close> creates it. Its \<^verbatim>\<open>id\<close> is
  \<^verbatim>\<open>Date.now() + Math.random()\<close>, a number the model takes from its environment.
\<close>

record question =
  id_q :: real
  text_q :: jsval
  options :: jsval
  image_q :: jsval
  co :: jsval
  bloom :: jsval

text \<open>
  A section, typed as \<^verbatim>\<open>defaultSections\<close> types it, but for the three counts, which
  hold what \<^verbatim>\<open>updateSection\<close> wrote. The identifier is a whole number of any size.
\<close>

record paper_section =
  id_s :: int
  title :: string
  desc :: string
  type_s :: string
  qCount :: count_value
  attemptCount :: count_value
  marksPerQ :: count_value
  questions :: "question list"

definition defaultSections :: "paper_section list" where
  "defaultSections =
     [\<lparr>id_s = 1, title = ''Q1'', desc = ''Multiple Choice Questions'', type_s = ''mcq'',
        qCount = Number (Fin 6), attemptCount = Number (Fin 6), marksPerQ = Number (Fin 1),
        questions = []\<rparr>,
      \<lparr>id_s = 2, title = ''Q2'', desc = ''Short Notes / Answer'', type_s = ''subjective'',
        qCount = Number (Fin 4), attemptCount = Number (Fin 2), marksPerQ = Number (Fin 3),
        questions = []\<rparr>]"

text \<open>
  The part of the component's state that the handlers below read and write;
  \<open>alerts\<close> lists the messages shown with \<^verbatim>\<open>alert\<close>. The flags that only drive the
  display (loading, open menus, pending dialogs) are left out.
\<close>

record app_state =
  meta_of :: meta
  sections :: "paper_section list"
  validationError :: "string option"
  activeTab :: string
  activeSectionId :: int
  alerts :: "string list"

text \<open>
  The state the component starts in; \<open>year\<close> is what
  \<^verbatim>\<open>getCurrentAcademicYear()\<close> reads from the clock. The bullet of the instructions
  is written as the two bytes of its UTF-8 form.
\<close>

definition defaultMeta :: "string \<Rightarrow> meta" where
  "defaultMeta year =
     \<lparr>universityName = ''ITM (SLS) BARODA UNIVERSITY'', schoolName = [], branch = [],
      semester = [], specializations = [], academicYear = year, examType = [],
      courseCode = [], courseName = [], examDate = [], startTime = [], endTime = [],
      instructions =
        [CHR 0xC2, CHR 0xB7] @ '' All questions are mandatory. There are no external options.'' @ [CHR 0x0A]
        @ [CHR 0xC2, CHR 0xB7] @ '' Make suitable assumptions, wherever necessary, and state them clearly.'' @ [CHR 0x0A]
        @ [CHR 0xC2, CHR 0xB7] @ '' Use of Non-Programmable Calculator is allowed/Not allowed.'' @ [CHR 0x0A]
        @ [CHR 0xC2, CHR 0xB7] @ '' Figures to the right indicate maximum marks.''\<rparr>"

definition initial_state :: "string \<Rightarrow> app_state" where
  "initial_state year =
     \<lparr>meta_of = defaultMeta year, sections = defaultSections, validationError = None,
      activeTab = ''blueprint'', activeSectionId = 1, alerts = []\<rparr>"

subsection \<open>Section handlers\<close>

definition addSection :: "app_state \<Rightarrow> app_state" where
  "addSection st =
     (let newId = fold max (map id_s (sections st)) 0 + 1;
          newSection = \<lparr>id_s = newId,
            title = ''Q'' @ show_nat (length (sections st) + 1),
            desc = ''Subjective Questions'', type_s = ''subjective'',
            qCount = Number (Fin 3), attemptCount = Number (Fin 3),
            marksPerQ = Number (Fin 5), questions = []\<rparr>
      in st\<lparr>sections := sections st @ [newSection],
            activeSectionId := (if activeTab st = ''builder'' then newId
                                else activeSectionId st)\<rparr>)"

text \<open>
  \<^verbatim>\<open>updateSection(id, field, value)\<close> writes \<^verbatim>\<open>value\<close> under the computed key
  \<^verbatim>\<open>field\<close>. The keys are those of a section (any other key adds a property that
  nothing reads). The title, the description and the type are written with the text of
  their input, a count with a number or with the text of its number input.
\<close>

datatype field_value =
    F_id int
  | F_title string
  | F_desc string
  | F_type string
  | F_qCount count_value
  | F_attemptCount count_value
  | F_marksPerQ count_value
  | F_questions "question list"

fun set_field :: "paper_section \<Rightarrow> field_value \<Rightarrow> paper_section" where
  "set_field s (F_id v) = s\<lparr>id_s := v\<rparr>"
| "set_field s (F_title v) = s\<lparr>title := v\<rparr>"
| "set_field s (F_desc v) = s\<lparr>desc := v\<rparr>"
| "set_field s (F_type v) = s\<lparr>type_s := v\<rparr>"
| "set_field s (F_qCount v) = s\<lparr>qCount := v\<rparr>"
| "set_field s (F_attemptCount v) = s\<lparr>attemptCount := v\<rparr>"
| "set_field s (F_marksPerQ v) = s\<lparr>marksPerQ := v\<rparr>"
| "set_field s (F_questions v) = s\<lparr>questions := v\<rparr>"

fun qCount_value :: "field_value \<Rightarrow> count_value option" where
  "qCount_value (F_qCount v) = Some v"
| "qCount_value fv = None"

text \<open>
  The callback that \<^verbatim>\<open>updateSection\<close> maps over the sections. The new
  \<^verbatim>\<open>attemptCount\<close> is the number that \<^verbatim>\<open>parseInt\<close> returns, while \<^verbatim>\<open>qCount\<close>
  keeps the value as written.
\<close>

definition updateSection_in ::
  "runtime \<Rightarrow> int \<Rightarrow> field_value \<Rightarrow> paper_section \<Rightarrow> paper_section" where
  "updateSection_in rt i fv s =
     (if id_s s \<noteq> i then s
      else
        let updated = set_field s fv
        in if type_s updated = ''mcq''
           then updated\<lparr>attemptCount := Number (parseInt rt (qCount updated))\<rparr>
           else (case qCount_value fv of
                   Some v \<Rightarrow>
                     if js_less (parseInt rt v) (to_number rt (attemptCount s))
                     then updated\<lparr>attemptCount := Number (parseInt rt v)\<rparr>
                     else updated
                 | None \<Rightarrow> updated))"

definition updateSection :: "runtime \<Rightarrow> int \<Rightarrow> field_value \<Rightarrow> app_state \<Rightarrow> app_state" where
  "updateSection rt i fv st = st\<lparr>sections := map (updateSection_in rt i fv) (sections st)\<rparr>"

text \<open>
  \<^verbatim>\<open>deleteSection\<close> reads \<^verbatim>\<open>newSections[0].id\<close> when the active section is the
  deleted one; on an empty \<^verbatim>\<open>newSections\<close> that read throws a TypeError.
\<close>

definition deleteSection :: "int \<Rightarrow> app_state \<Rightarrow> error + app_state" where
  "deleteSection i st =
     (if length (sections st) > 1 then
        let newSections = filter (\<lambda>s. id_s s \<noteq> i) (sections st)
        in if activeSectionId st = i then
             (case newSections of
                [] \<Rightarrow> Inl TypeError
              | s # rest \<Rightarrow> Inr (st\<lparr>sections := newSections, activeSectionId := id_s s\<rparr>))
           else Inr (st\<lparr>sections := newSections\<rparr>)
      else Inr st)"

subsection \<open>The transition from the blueprint to the builder\<close>

definition requiredFields :: "string list" where
  "requiredFields =
     [''schoolName'', ''branch'', ''semester'', ''academicYear'',
      ''examType'', ''courseCode'', ''courseName'', ''examDate'', ''startTime'', ''endTime'',
      ''specializations'']"

text \<open>\<^verbatim>\<open>meta[field]\<close>; \<open>None\<close> is \<^verbatim>\<open>undefined\<close>.\<close>

definition meta_field :: "meta \<Rightarrow> string \<Rightarrow> string option" where
  "meta_field m field =
     map_of
       [(''universityName'', universityName m), (''schoolName'', schoolName m),
        (''branch'', branch m), (''semester'', semester m),
        (''specializations'', specializations m), (''academicYear'', academicYear m),
        (''examType'', examType m), (''courseCode'', courseCode m),
        (''courseName'', courseName m), (''examDate'', examDate m),
        (''startTime'', startTime m), (''endTime'', endTime m),
        (''instructions'', instructions m)] field"

definition missing :: "meta \<Rightarrow> string list" where
  "missing m =
     filter (\<lambda>field. case meta_field m field of None \<Rightarrow> True | Some v \<Rightarrow> v = [])
       requiredFields"

definition newQuestion :: "real \<Rightarrow> paper_section \<Rightarrow> question" where
  "newQuestion i section =
     \<lparr>id_q = i, text_q = Str [],
      options = (if type_s section = ''mcq''
                 then Arr [Str ''Option A'', Str ''Option B'', Str ''Option C'', Str ''Option D'']
                 else Arr []),
      image_q = Null, co = Str ''CO1'', bloom = Str ''R''\<rparr>"

text \<open>
  The loop that pushes new questions while \<^verbatim>\<open>i < needed\<close>; \<open>fresh i\<close> is the
  identifier that the \<open>i\<close>-th turn of the loop draws. For a fractional \<^verbatim>\<open>needed\<close> the
  last turn starts below it, and for an infinite one the loop goes on until
  \<^verbatim>\<open>push\<close> throws.
\<close>

function push_new ::
  "(nat \<Rightarrow> real) \<Rightarrow> paper_section \<Rightarrow> js_number \<Rightarrow> nat \<Rightarrow> question list
     \<Rightarrow> error + question list" where
  "push_new fresh section needed i currentQs =
     (if js_less (Fin (of_nat i)) needed then
        (if length currentQs < max_array_length
         then push_new fresh section needed (Suc i)
                (currentQs @ [newQuestion (fresh i) section])
         else Inl RangeError)
      else Inr currentQs)"
  by pat_completeness auto
termination
  by (relation "measure (\<lambda>(fresh, section, needed, i, currentQs).
        max_array_length - length currentQs)") auto

declare push_new.simps [simp del]

text \<open>
  The callback that \<^verbatim>\<open>initializeBuilder\<close> maps over the sections. The comparisons,
  the difference and \<^verbatim>\<open>slice\<close> read \<^verbatim>\<open>qCount\<close> as a number.
\<close>

definition reconcile :: "runtime \<Rightarrow> (nat \<Rightarrow> real) \<Rightarrow> paper_section \<Rightarrow> error + paper_section" where
  "reconcile rt fresh section =
     (let currentQs = questions section;
          len = length currentQs;
          count = to_number rt (qCount section)
      in if js_less (Fin (of_nat len)) count then
           (case push_new fresh section (minus_length count len) 0 currentQs of
              Inl err \<Rightarrow> Inl err
            | Inr pushed \<Rightarrow> Inr (section\<lparr>questions := pushed\<rparr>))
         else if js_less count (Fin (of_nat len)) then
           Inr (section\<lparr>questions := slice (Fin 0) count currentQs\<rparr>)
         else Inr (section\<lparr>questions := currentQs\<rparr>))"

text \<open>
  \<^verbatim>\<open>sections.map\<close> with this callback, from the \<open>j\<close>-th section on: \<open>fresh j\<close>
  supplies the identifiers drawn while the \<open>j\<close>-th section is reconciled, and an error
  thrown for one section ends the whole map.
\<close>

fun reconcile_from ::
  "runtime \<Rightarrow> (nat \<Rightarrow> nat \<Rightarrow> real) \<Rightarrow> nat \<Rightarrow> paper_section list
     \<Rightarrow> error + paper_section list" where
  "reconcile_from rt fresh j [] = Inr []"
| "reconcile_from rt fresh j (section # rest) =
     (case reconcile rt (fresh j) section of
        Inl err \<Rightarrow> Inl err
      | Inr s \<Rightarrow>
          (case reconcile_from rt fresh (Suc j) rest of
             Inl err \<Rightarrow> Inl err
           | Inr others \<Rightarrow> Inr (s # others)))"

definition reconcile_all ::
  "runtime \<Rightarrow> (nat \<Rightarrow> nat \<Rightarrow> real) \<Rightarrow> paper_section list \<Rightarrow> error + paper_section list" where
  "reconcile_all rt fresh secs = reconcile_from rt fresh 0 secs"

text \<open>
  \<^verbatim>\<open>initializeBuilder\<close>. Its last statement reads \<^verbatim>\<open>newSections[0].id\<close>, which
  throws a TypeError on an empty list of sections.
\<close>

definition initializeBuilder ::
  "runtime \<Rightarrow> (nat \<Rightarrow> nat \<Rightarrow> real) \<Rightarrow> app_state \<Rightarrow> error + app_state" where
  "initializeBuilder rt fresh st =
     (if missing (meta_of st) \<noteq> [] then
        Inr (st\<lparr>validationError := Some ''Please fill in all required fields marked with *''\<rparr>)
      else
        (case reconcile_all rt fresh (sections st) of
           Inl err \<Rightarrow> Inl err
         | Inr newSections \<Rightarrow>
             let st' = st\<lparr>validationError := None, sections := newSections,
                          activeTab := ''builder''\<rparr>
             in if find (\<lambda>s. id_s s = activeSectionId st) newSections = None then
                  (case newSections of
                     [] \<Rightarrow> Inl TypeError
                   | s # rest \<Rightarrow> Inr (st'\<lparr>activeSectionId := id_s s\<rparr>))
                else Inr st'))"

subsection \<open>The generation transport\<close>

text \<open>
  What one \<^verbatim>\<open>fetch\<close> brings: the promise rejects with an error, or a response
  arrives with its status and with what \<^verbatim>\<open>response.json()\<close> gives, an error when the
  body is no JSON text.
\<close>

datatype fetch_outcome =
    Rejected error
  | Response nat "error + jsval"

definition response_ok :: "nat \<Rightarrow> bool" where
  "response_ok status = (200 \<le> status \<and> status \<le> 299)"

text \<open>
  \<^verbatim>\<open>data.candidates?.[0]?.content?.parts?.[0]?.text\<close>, on a \<open>data\<close> that is not
  \<^verbatim>\<open>null\<close>.
\<close>

definition candidate_path :: "jsval \<Rightarrow> jsval" where
  "candidate_path data =
     opt_named (opt_index (opt_named (opt_named
       (opt_index (get_named data ''candidates'') 0) ''content'') ''parts'') 0) ''text''"

text \<open>
  The value that \<^verbatim>\<open>callGemini\<close> returns from \<open>data\<close>, the path above or the empty
  string (\<^verbatim>\<open>|| ""\<close>). The first access of the path is not optional: on
  \<^verbatim>\<open>null\<close> it throws.
\<close>

definition candidate_text :: "jsval \<Rightarrow> error + jsval" where
  "candidate_text data =
     (if nullish data then Inl TypeError
      else Inr (if truthy (candidate_path data) then candidate_path data else Str []))"

text \<open>The body of the \<^verbatim>\<open>try\<close> block: \<open>Inl\<close> is the error the \<^verbatim>\<open>catch\<close> receives.\<close>

fun attempt :: "fetch_outcome \<Rightarrow> error + jsval" where
  "attempt (Rejected err) = Inl err"
| "attempt (Response status body) =
     (if \<not> response_ok status then Inl (ApiError status)
      else case body of Inl err \<Rightarrow> Inl err | Inr data \<Rightarrow> candidate_text data)"

definition delays :: "nat list" where
  "delays = [1000, 2000, 4000]"

text \<open>
  The result of a call: what it returns or throws, the delays it slept in order, and the
  number of requests it made.
\<close>

record call_result =
  outcome :: "error + jsval"
  slept :: "nat list"
  attempts :: nat

text \<open>
  The retry loop from its \<open>i\<close>-th turn on; \<open>net i\<close> is what the request of turn
  \<open>i\<close> brings. A loop that ran out without returning would return
  \<^verbatim>\<open>undefined\<close>.
\<close>

function callGemini_from :: "(nat \<Rightarrow> fetch_outcome) \<Rightarrow> nat \<Rightarrow> nat list \<Rightarrow> call_result" where
  "callGemini_from net i waited =
     (if i < length delays + 1 then
        (case attempt (net i) of
           Inr v \<Rightarrow> \<lparr>outcome = Inr v, slept = waited, attempts = i + 1\<rparr>
         | Inl err \<Rightarrow>
             if i = length delays then \<lparr>outcome = Inl err, slept = waited, attempts = i + 1\<rparr>
             else callGemini_from net (i + 1) (waited @ [delays ! i]))
      else \<lparr>outcome = Inr Undefined, slept = waited, attempts = i\<rparr>)"
  by pat_completeness auto
termination
  by (relation "measure (\<lambda>(net, i, waited). length delays + 1 - i)") auto

declare callGemini_from.simps [simp del]

definition callGemini :: "(nat \<Rightarrow> fetch_outcome) \<Rightarrow> call_result" where
  "callGemini net = callGemini_from net 0 []"

subsection \<open>Bulk fill\<close>

text \<open>
  Strings are ASCII text. \<^verbatim>\<open>replace(/p/g, '')\<close> removes the occurrences of a literal
  pattern from left to right; \<^verbatim>\<open>trim()\<close> removes white space at both ends.
\<close>

function remove_all :: "string \<Rightarrow> string \<Rightarrow> string" where
  "remove_all pat [] = []"
| "remove_all pat (c # cs) =
     (if pat \<noteq> [] \<and> take (length pat) (c # cs) = pat
      then remove_all pat (drop (length pat) (c # cs))
      else c # remove_all pat cs)"
  by pat_completeness auto
termination
  by (relation "measure (\<lambda>(pat, s). length s)") auto

definition is_space :: "char \<Rightarrow> bool" where
  "is_space c = (c \<in> set [CHR 0x09, CHR 0x0A, CHR 0x0B, CHR 0x0C, CHR 0x0D, CHR 0x20])"

definition trim :: "string \<Rightarrow> string" where
  "trim s = rev (dropWhile is_space (rev (dropWhile is_space s)))"

definition strip_fences :: "string \<Rightarrow> string" where
  "strip_fences rawText = trim (remove_all ''```'' (remove_all ''```json'' rawText))"

text \<open>The callback that the bulk fill maps over the questions of its section.\<close>

definition merge_generated :: "string \<Rightarrow> jsval \<Rightarrow> nat \<Rightarrow> question \<Rightarrow> question" where
  "merge_generated section_type generatedData idx q =
     (let item = get_index generatedData idx
      in if truthy item then
           q\<lparr>text_q := get_named item ''text'',
             options := (if section_type = ''mcq''
                         then (if truthy (get_named item ''options'')
                               then get_named item ''options'' else options q)
                         else Arr []),
             bloom := (if truthy (get_named item ''bloom'')
                       then get_named item ''bloom'' else Str ''R''),
             co := (if truthy (get_named item ''co'')
                    then get_named item ''co'' else Str ''CO1'')\<rparr>
         else q)"

definition fill_section :: "int \<Rightarrow> jsval \<Rightarrow> paper_section \<Rightarrow> paper_section" where
  "fill_section sectionId generatedData s =
     (if id_s s \<noteq> sectionId then s
      else s\<lparr>questions := map (\<lambda>(idx, q). merge_generated (type_s s) generatedData idx q)
                               (enumerate 0 (questions s))\<rparr>)"

definition generation_failed :: "app_state \<Rightarrow> app_state" where
  "generation_failed st = st\<lparr>alerts := alerts st @ [''AI Generation failed. Try again.'']\<rparr>"

text \<open>
  \<^verbatim>\<open>executeMagicFill\<close>. The prompt only travels to the service, whose replies are
  \<open>net\<close>; \<open>parse\<close> is \<^verbatim>\<open>JSON.parse\<close>, \<open>None\<close> where it throws. A reply that is
  no string has no \<^verbatim>\<open>replace\<close> method, and the call throws inside the
  \<^verbatim>\<open>try\<close> block. The state update reads \<^verbatim>\<open>generatedData[idx]\<close> outside the
  \<^verbatim>\<open>try\<close> block, when React runs it: on \<^verbatim>\<open>null\<close> that read throws, uncaught, as
  soon as the section has a question. No other handler runs during the call, so the
  update receives the sections that the call started with.
\<close>

definition executeMagicFill ::
  "(string \<Rightarrow> jsval option) \<Rightarrow> (nat \<Rightarrow> fetch_outcome) \<Rightarrow> int option \<Rightarrow> app_state
     \<Rightarrow> error + app_state" where
  "executeMagicFill parse net sectionId st =
     (case sectionId of
        None \<Rightarrow> Inr st
      | Some i \<Rightarrow>
          (case find (\<lambda>s. id_s s = i) (sections st) of
             None \<Rightarrow> Inr st
           | Some section \<Rightarrow>
               (case outcome (callGemini net) of
                  Inl err \<Rightarrow> Inr (generation_failed st)
                | Inr (Str rawText) \<Rightarrow>
                    (case parse (strip_fences rawText) of
                       None \<Rightarrow> Inr (generation_failed st)
                     | Some generatedData \<Rightarrow>
                         if nullish generatedData
                            \<and> (\<exists>s \<in> set (sections st). id_s s = i \<and> questions s \<noteq> [])
                         then Inl TypeError
                         else Inr (st\<lparr>sections := map (fill_section i generatedData)
                                                      (sections st)\<rparr>))
                | Inr other \<Rightarrow> Inr (generation_failed st))))"

subsection \<open>Example states\<close>

text \<open>A metadata record with every field filled, and the initial state holding it.\<close>

definition example_meta :: meta where
  "example_meta =
     (defaultMeta ''2025-2026'')\<lparr>schoolName := ''School of Technology'', branch := ''CSE'',
       semester := ''5'', specializations := ''AI'', examType := ''MST'',
       courseCode := ''CS501'', courseName := ''Algorithms'', examDate := ''2025-11-03'',
       startTime := ''09:00'', endTime := ''10:30''\<rparr>"

definition example_state :: app_state where
  "example_state = (initial_state ''2025-2026'')\<lparr>meta_of := example_meta\<rparr>"

definition example_ids :: "nat \<Rightarrow> nat \<Rightarrow> real" where
  "example_ids j i = real (100 * (j + 1) + i)"

text \<open>
  What JavaScript's conversions give on the texts and numbers of the examples:
  \<^verbatim>\<open>parseInt\<close> reads the digits in front of a text, so \<^verbatim>\<open>parseInt('2.5')\<close> is 2
  and \<^verbatim>\<open>parseInt('')\<close> is NaN, while as a number \<^verbatim>\<open>'2.5'\<close> is 2.5 and \<^verbatim>\<open>''\<close>
  is 0.
\<close>

definition javascript_on_examples :: "runtime \<Rightarrow> bool" where
  "javascript_on_examples rt =
     (parseInt rt (Text []) = NaN \<and> stringToNumber rt [] = Fin 0
      \<and> parseInt rt (Text ''5'') = Fin 5 \<and> stringToNumber rt ''5'' = Fin 5
      \<and> parseInt rt (Text ''8'') = Fin 8 \<and> stringToNumber rt ''8'' = Fin 8
      \<and> parseInt rt (Text ''2.5'') = Fin 2 \<and> stringToNumber rt ''2.5'' = Fin (5 / 2)
      \<and> parseInt rt (Text ''-1'') = Fin (- 1) \<and> stringToNumber rt ''-1'' = Fin (- 1)
      \<and> parseInt rt (Number (Fin 4)) = Fin 4 \<and> parseInt rt (Number (Fin 6)) = Fin 6)"

text \<open>
  A runtime that gives these answers; on every other value the example gives NaN, which
  no statement below relies on.
\<close>

definition example_runtime :: runtime where
  "example_runtime =
     \<lparr>parseInt = (\<lambda>v.
        if v = Text ''5'' then Fin 5 else if v = Text ''8'' then Fin 8
        else if v = Text ''2.5'' then Fin 2 else if v = Text ''-1'' then Fin (- 1)
        else if v = Number (Fin 4) then Fin 4 else if v = Number (Fin 6) then Fin 6
        else NaN),
      stringToNumber = (\<lambda>t.
        if t = [] then Fin 0 else if t = ''5'' then Fin 5 else if t = ''8'' then Fin 8
        else if t = ''2.5'' then Fin (5 / 2) else if t = ''-1'' then Fin (- 1)
        else NaN)\<rparr>"

text \<open>
  The state after the transition from \<open>example_state\<close>: section 1 has six new
  questions and section 2 four.
\<close>

definition example_built :: app_state where
  "example_built =
     example_state\<lparr>validationError := None,
       sections :=
         [(defaultSections ! 0)\<lparr>questions :=
             map (\<lambda>i. newQuestion (example_ids 0 i) (defaultSections ! 0)) [0, 1, 2, 3, 4, 5]\<rparr>,
          (defaultSections ! 1)\<lparr>questions :=
             map (\<lambda>i. newQuestion (example_ids 1 i) (defaultSections ! 1)) [0, 1, 2, 3]\<rparr>],
       activeTab := ''builder''\<rparr>"

text \<open>
  A reply of the service that carries the text \<^verbatim>\<open>[]\<close>, and three networks: one whose
  first response has status 200 and a body that is no JSON text, one whose responses
  have status 200 and the body \<^verbatim>\<open>{}\<close>, and one that fails twice before it replies.
\<close>

definition example_reply :: jsval where
  "example_reply =
     Obj [(''candidates'',
           Arr [Obj [(''content'', Obj [(''parts'', Arr [Obj [(''text'', Str ''[]'')]])])]])]"

definition net_unreadable_first :: "nat \<Rightarrow> fetch_outcome" where
  "net_unreadable_first i =
     (if i = 0 then Response 200 (Inl SyntaxError) else Response 200 (Inr example_reply))"

definition net_empty_object :: "nat \<Rightarrow> fetch_outcome" where
  "net_empty_object i = Response 200 (Inr (Obj []))"

definition net_third_time :: "nat \<Rightarrow> fetch_outcome" where
  "net_third_time i =
     (if i = 0 then Response 503 (Inl SyntaxError)
      else if i = 1 then Rejected (NetworkError ''Failed to fetch'')
      else Response 200 (Inr example_reply))"

text \<open>
  For the bulk fill: a response that carries a given text, a reply of one item that has a
  text and nothing else, the reply text that stands for it, wrapped in a code fence, and
  a \<^verbatim>\<open>JSON.parse\<close> that is given on this text and, as an error, on a text that is no
  JSON. In \<open>example_tagged\<close> the first question of section 2 has been written and
  tagged by hand.
\<close>

definition reply_with :: "string \<Rightarrow> fetch_outcome" where
  "reply_with t =
     Response 200 (Inr (Obj [(''candidates'',
       Arr [Obj [(''content'', Obj [(''parts'', Arr [Obj [(''text'', Str t)]])])]])]))"

definition example_items :: jsval where
  "example_items = Arr [Obj [(''text'', Str ''Define a stack.'')]]"

definition example_text :: string where
  "example_text = ''[{'' @ [CHR 0x22] @ ''text'' @ [CHR 0x22] @ '': ''
     @ [CHR 0x22] @ ''Define a stack.'' @ [CHR 0x22] @ ''}]''"

definition example_fenced :: string where
  "example_fenced = ''```json'' @ [CHR 0x0A] @ example_text @ [CHR 0x0A] @ ''```''"

definition example_parse :: "string \<Rightarrow> jsval option" where
  "example_parse t = (if t = example_text then Some example_items else None)"

definition example_tagged :: app_state where
  "example_tagged =
     example_built\<lparr>sections :=
       map (\<lambda>s. if id_s s = 2
                then s\<lparr>questions := (questions s)
                       [0 := (questions s ! 0)\<lparr>text_q := Str ''What is a queue?'',
                              bloom := Str ''AN'', co := Str ''CO3''\<rparr>]\<rparr>
                else s)
         (sections example_built)\<rparr>"

subsection \<open>Sequences of section operations\<close>

datatype section_op = Add | Delete int

fun run_ops :: "section_op list \<Rightarrow> app_state \<Rightarrow> error + app_state" where
  "run_ops [] st = Inr st"
| "run_ops (Add # ops) st = run_ops ops (addSection st)"
| "run_ops (Delete i # ops) st =
     (case deleteSection i st of Inl err \<Rightarrow> Inl err | Inr st' \<Rightarrow> run_ops ops st')"

section \<open>Properties of the section handlers\<close>

subsection \<open>The example runtime\<close>

lemma javascript_on_examples_example: "javascript_on_examples example_runtime"
  by (simp add: javascript_on_examples_def example_runtime_def)

subsection \<open>Setting a field of a section\<close>

lemma updateSection_in_other: "id_s s \<noteq> i \<Longrightarrow> updateSection_in rt i fv s = s"
  by (simp add: updateSection_in_def)

text \<open>
  Claim C1. The claim is that no mutation through \<^verbatim>\<open>updateSection\<close> leaves a section
  with \<open>attemptCount\<close> above \<open>qCount\<close>. The setter clamps \<open>attemptCount\<close> when
  \<open>qCount\<close> shrinks and overwrites it in a multiple-choice section, but it stores a
  directly given \<open>attemptCount\<close> as it is: in the initial state, setting the attempt count
  of section 2 (subjective, four questions) to 5, as a number or as the text of the
  input, leaves 5 to attempt out of 4.
\<close>

theorem updateSection_attemptCount_unclamped:
  "map (\<lambda>s. (type_s s, qCount s, attemptCount s))
     (sections (updateSection rt 2 (F_attemptCount (Number (Fin 5))) (initial_state ''2025-2026'')))
   = [(''mcq'', Number (Fin 6), Number (Fin 6)), (''subjective'', Number (Fin 4), Number (Fin 5))]
   \<and> map (\<lambda>s. (type_s s, qCount s, attemptCount s))
     (sections (updateSection rt 2 (F_attemptCount (Text ''5'')) (initial_state ''2025-2026'')))
   = [(''mcq'', Number (Fin 6), Number (Fin 6)), (''subjective'', Number (Fin 4), Text ''5'')]"
  by (simp add: updateSection_def updateSection_in_def initial_state_def defaultSections_def)

text \<open>
  Claim C2. The claim is that a multiple-choice section has \<open>attemptCount\<close> equal to
  \<open>qCount\<close> after its type or its question count is set. The setter stores the text of
  the input as \<open>qCount\<close> and \<^verbatim>\<open>parseInt\<close> of it as \<open>attemptCount\<close>. In the initial
  state, writing \<^verbatim>\<open>2.5\<close> into the question count of section 1 (multiple-choice) leaves
  2 to attempt of a count that reads as 2.5, and clearing the field leaves NaN to
  attempt of a count that reads as 0.
\<close>

theorem updateSection_mcq_count_text:
  assumes "javascript_on_examples rt"
  shows "map (\<lambda>s. (type_s s, qCount s, attemptCount s))
           (sections (updateSection rt 1 (F_qCount (Text ''2.5'')) (initial_state year)))
         = [(''mcq'', Text ''2.5'', Number (Fin 2)),
            (''subjective'', Number (Fin 4), Number (Fin 2))]
       \<and> to_number rt (Text ''2.5'') = Fin (5 / 2)
       \<and> map (\<lambda>s. (type_s s, qCount s, attemptCount s))
           (sections (updateSection rt 1 (F_qCount (Text [])) (initial_state year)))
         = [(''mcq'', Text [], Number NaN),
            (''subjective'', Number (Fin 4), Number (Fin 2))]
       \<and> to_number rt (Text []) = Fin 0"
  using assms
  by (simp add: javascript_on_examples_def updateSection_def updateSection_in_def
      initial_state_def defaultSections_def to_number_def)

theorem updateSection_mcq_count_text_witness:
  "map (\<lambda>s. (type_s s, qCount s, attemptCount s))
     (sections (updateSection example_runtime 1 (F_qCount (Text ''2.5''))
        (initial_state ''2025-2026'')))
   = [(''mcq'', Text ''2.5'', Number (Fin 2)),
      (''subjective'', Number (Fin 4), Number (Fin 2))]
   \<and> to_number example_runtime (Text ''2.5'') = Fin (5 / 2)"
  using updateSection_mcq_count_text [OF javascript_on_examples_example, of "''2025-2026''"]
  by simp

section \<open>Properties of the transition to the builder\<close>

subsection \<open>Auxiliary facts\<close>

lemma missing_empty_iff: "missing m = [] \<longleftrightarrow>
  schoolName m \<noteq> [] \<and> branch m \<noteq> [] \<and> semester m \<noteq> [] \<and> academicYear m \<noteq> [] \<and>
  examType m \<noteq> [] \<and> courseCode m \<noteq> [] \<and> courseName m \<noteq> [] \<and> examDate m \<noteq> [] \<and>
  startTime m \<noteq> [] \<and> endTime m \<noteq> [] \<and> specializations m \<noteq> []"
  by (simp add: missing_def requiredFields_def meta_field_def filter_empty_conv)

lemma missing_example_meta: "missing example_meta = []"
  by (simp add: missing_empty_iff example_meta_def defaultMeta_def)

lemma reconcile_id: "reconcile rt fresh s = Inr s' \<Longrightarrow> id_s s' = id_s s"
  by (auto simp: reconcile_def Let_def split: if_splits sum.splits)

lemma reconcile_from_ids:
  "reconcile_from rt fresh j secs = Inr newSections \<Longrightarrow> map id_s newSections = map id_s secs"
proof (induction secs arbitrary: j newSections)
  case Nil
  then show ?case by simp
next
  case (Cons s rest)
  then show ?case
    by (auto split: sum.splits dest: reconcile_id)
qed

lemma reconcile_all_ids:
  assumes "reconcile_all rt fresh secs = Inr newSections"
  shows "map id_s newSections = map id_s secs"
  using assms unfolding reconcile_all_def by (rule reconcile_from_ids)

lemma find_id_None: "(find (\<lambda>s. id_s s = i) secs = None) = (i \<notin> id_s ` set secs)"
  by (auto simp: find_None_iff)

lemma initializeBuilder_filled:
  assumes "missing (meta_of st) = []"
  shows "initializeBuilder rt fresh st =
     (case reconcile_all rt fresh (sections st) of
        Inl err \<Rightarrow> Inl err
      | Inr newSections \<Rightarrow>
          if sections st = [] then Inl TypeError
          else Inr (st\<lparr>validationError := None, sections := newSections,
                      activeTab := ''builder'',
                      activeSectionId :=
                        (if activeSectionId st \<in> id_s ` set (sections st)
                         then activeSectionId st else id_s (hd (sections st)))\<rparr>))"
proof (cases "reconcile_all rt fresh (sections st)")
  case (Inl err)
  with assms show ?thesis by (simp add: initializeBuilder_def)
next
  case (Inr newSections)
  from reconcile_all_ids [OF Inr] have ids: "map id_s newSections = map id_s (sections st)" .
  then have sets: "id_s ` set newSections = id_s ` set (sections st)"
    by (metis set_map)
  have found: "(find (\<lambda>s. id_s s = activeSectionId st) newSections = None)
      = (activeSectionId st \<notin> id_s ` set (sections st))"
    by (simp only: find_id_None sets)
  show ?thesis
  proof (cases "sections st")
    case Nil
    with ids have "newSections = []" by simp
    with assms Inr Nil show ?thesis by (simp add: initializeBuilder_def)
  next
    case (Cons s rest)
    with ids obtain x xs where new: "newSections = x # xs" and x: "id_s x = id_s s"
      by (cases newSections) auto
    show ?thesis
    proof (cases "activeSectionId st \<in> id_s ` set (sections st)")
      case True
      with found have "find (\<lambda>s. id_s s = activeSectionId st) newSections \<noteq> None"
        by simp
      with assms Inr Cons True show ?thesis
        by (auto simp add: initializeBuilder_def Let_def)
    next
      case False
      with found have "find (\<lambda>s. id_s s = activeSectionId st) newSections = None"
        by simp
      with assms Inr Cons False new x show ?thesis
        by (simp add: initializeBuilder_def Let_def)
    qed
  qed
qed

subsection \<open>Validation\<close>

text \<open>
  Claim C5. The transition looks at the eleven required fields and at nothing else of the
  metadata. If one of them is empty, the transition returns the state it was given,
  changed only in that the validation error is set: metadata, sections, question lists
  and the active tab are as before. If all of them are filled, it does not end that way.
\<close>

theorem initializeBuilder_validation:
  "(if schoolName (meta_of st) \<noteq> [] \<and> branch (meta_of st) \<noteq> [] \<and> semester (meta_of st) \<noteq> []
        \<and> academicYear (meta_of st) \<noteq> [] \<and> examType (meta_of st) \<noteq> []
        \<and> courseCode (meta_of st) \<noteq> [] \<and> courseName (meta_of st) \<noteq> []
        \<and> examDate (meta_of st) \<noteq> [] \<and> startTime (meta_of st) \<noteq> []
        \<and> endTime (meta_of st) \<noteq> [] \<and> specializations (meta_of st) \<noteq> []
    then initializeBuilder rt fresh st =
           (case reconcile_all rt fresh (sections st) of
              Inl err \<Rightarrow> Inl err
            | Inr newSections \<Rightarrow>
                if sections st = [] then Inl TypeError
                else Inr (st\<lparr>validationError := None,
                            sections := newSections,
                            activeTab := ''builder'',
                            activeSectionId :=
                              (if activeSectionId st \<in> id_s ` set (sections st)
                               then activeSectionId st else id_s (hd (sections st)))\<rparr>))
    else initializeBuilder rt fresh st
           = Inr (st\<lparr>validationError := Some ''Please fill in all required fields marked with *''\<rparr>))"
proof (cases "missing (meta_of st) = []")
  case True
  then show ?thesis
    using initializeBuilder_filled [OF True, of rt fresh] by (simp add: missing_empty_iff)
next
  case False
  have "initializeBuilder rt fresh st
      = Inr (st\<lparr>validationError := Some ''Please fill in all required fields marked with *''\<rparr>)"
    using False by (simp add: initializeBuilder_def)
  with False show ?thesis
    by (simp only: missing_empty_iff if_False)
qed

theorem initializeBuilder_validation_witness:
  "initializeBuilder example_runtime example_ids
       (example_state\<lparr>meta_of := example_meta\<lparr>examDate := []\<rparr>\<rparr>)
     = Inr (example_state\<lparr>meta_of := example_meta\<lparr>examDate := []\<rparr>,
              validationError := Some ''Please fill in all required fields marked with *''\<rparr>)"
  using initializeBuilder_validation
    [of "example_state\<lparr>meta_of := example_meta\<lparr>examDate := []\<rparr>\<rparr>" example_runtime example_ids]
  by (simp add: example_meta_def defaultMeta_def)

subsection \<open>Reconciliation\<close>

lemma of_nat_less_ceiling: "(real i < r) = (i < nat \<lceil>r\<rceil>)"
proof -
  have "(of_nat i < r) = (int i < \<lceil>r\<rceil>)"
    using less_ceiling_iff [of "int i" r] by simp
  then show ?thesis
    by (simp add: zless_nat_eq_int_zless)
qed

lemma push_new_Fin:
  assumes "length qs + (nat \<lceil>r\<rceil> - i) \<le> max_array_length"
  shows "push_new fresh s (Fin r) i qs
     = Inr (qs @ map (\<lambda>k. newQuestion (fresh k) s) [i..<nat \<lceil>r\<rceil>])"
  using assms
proof (induction "nat \<lceil>r\<rceil> - i" arbitrary: i qs)
  case 0
  from \<open>0 = nat \<lceil>r\<rceil> - i\<close> have turn: "\<not> i < nat \<lceil>r\<rceil>"
    by linarith
  then have "\<not> real i < r"
    by (simp only: of_nat_less_ceiling not_False_eq_True)
  with turn show ?case
    by (subst push_new.simps) simp
next
  case (Suc n)
  from \<open>Suc n = nat \<lceil>r\<rceil> - i\<close> have turn: "i < nat \<lceil>r\<rceil>"
    by linarith
  then have less: "real i < r"
    by (simp only: of_nat_less_ceiling)
  from turn Suc.prems have room: "length qs < max_array_length"
    by linarith
  from \<open>Suc n = nat \<lceil>r\<rceil> - i\<close> have "n = nat \<lceil>r\<rceil> - Suc i"
    by linarith
  moreover from turn Suc.prems
  have "length (qs @ [newQuestion (fresh i) s]) + (nat \<lceil>r\<rceil> - Suc i) \<le> max_array_length"
    by simp
  ultimately have "push_new fresh s (Fin r) (Suc i) (qs @ [newQuestion (fresh i) s])
     = Inr ((qs @ [newQuestion (fresh i) s])
            @ map (\<lambda>k. newQuestion (fresh k) s) [Suc i..<nat \<lceil>r\<rceil>])"
    by (rule Suc.hyps(1))
  with less room turn show ?case
    by (subst push_new.simps) (simp add: upt_conv_Cons)
qed

lemma push_new_PosInf: "push_new fresh s PosInf i qs = Inl RangeError"
proof (induction "max_array_length - length qs" arbitrary: i qs)
  case 0
  then show ?case
    by (subst push_new.simps) simp
next
  case (Suc n)
  then have "n = max_array_length - length (qs @ [newQuestion (fresh i) s])"
    by simp
  then have "push_new fresh s PosInf (Suc i) (qs @ [newQuestion (fresh i) s]) = Inl RangeError"
    by (rule Suc.hyps(1))
  then show ?case
    by (subst push_new.simps) simp
qed

lemma sections_example_state: "sections example_state = defaultSections"
  by (simp add: example_state_def initial_state_def)

lemma meta_example_state: "meta_of example_state = example_meta"
  by (simp add: example_state_def)

lemma reconcile_default_sections:
  "reconcile_all rt example_ids defaultSections = Inr (sections example_built)"
  by (simp add: reconcile_all_def defaultSections_def reconcile_def to_number_def push_new_Fin
      max_array_length_def example_built_def upt_rec Let_def example_ids_def)

lemma initializeBuilder_example:
  "initializeBuilder rt example_ids example_state = Inr example_built"
  using initializeBuilder_filled [of example_state rt example_ids] missing_example_meta
  by (simp add: meta_example_state sections_example_state reconcile_default_sections)
    (simp add: example_built_def example_state_def initial_state_def defaultSections_def)

lemma questions_example_built:
  "map (\<lambda>s. (qCount s, map id_q (questions s))) (sections example_built)
     = [(Number (Fin 6), [100, 101, 102, 103, 104, 105]), (Number (Fin 4), [200, 201, 202, 203])]"
  by (simp add: example_built_def defaultSections_def example_ids_def newQuestion_def)

text \<open>
  Claim C3. The claim is that the transition makes every question list as long as its
  \<open>qCount\<close>. For a count that is no whole number the loop pushes while its counter is
  below the difference, one question too many for the lengths to meet: with
  \<^verbatim>\<open>2.5\<close> written into the question count of section 2, which has no question, the
  transition gives the section the three questions 200, 201 and 202.
\<close>

theorem initializeBuilder_fractional_count:
  assumes "javascript_on_examples rt"
  shows "map_sum id (\<lambda>st. map (\<lambda>s. (qCount s, map id_q (questions s))) (sections st))
           (initializeBuilder rt example_ids
              (updateSection rt 2 (F_qCount (Text ''2.5'')) example_state))
         = Inr [(Number (Fin 6), [100, 101, 102, 103, 104, 105]),
                (Text ''2.5'', [200, 201, 202])]
       \<and> to_number rt (Text ''2.5'') = Fin (5 / 2)"
proof -
  define st where "st = updateSection rt 2 (F_qCount (Text ''2.5'')) example_state"
  have filled: "missing (meta_of st) = []"
    by (simp add: st_def updateSection_def meta_example_state missing_example_meta)
  have secs: "sections st =
      [defaultSections ! 0, (defaultSections ! 1)\<lparr>qCount := Text ''2.5''\<rparr>]"
    using assms
    by (simp add: st_def updateSection_def updateSection_in_def sections_example_state
        defaultSections_def javascript_on_examples_def to_number_def)
  have number: "to_number rt (Text ''2.5'') = Fin (5 / 2)"
    using assms by (simp add: javascript_on_examples_def to_number_def)
  have "map_sum id (map (\<lambda>s. (qCount s, map id_q (questions s))))
          (reconcile_all rt example_ids (sections st))
        = Inr [(Number (Fin 6), [100, 101, 102, 103, 104, 105]),
               (Text ''2.5'', [200, 201, 202])]"
    using number
    by (simp add: secs reconcile_all_def defaultSections_def reconcile_def to_number_def
        push_new_Fin max_array_length_def upt_rec example_ids_def newQuestion_def Let_def)
  then have "map_sum id (\<lambda>st. map (\<lambda>s. (qCount s, map id_q (questions s))) (sections st))
          (initializeBuilder rt example_ids st)
        = Inr [(Number (Fin 6), [100, 101, 102, 103, 104, 105]),
               (Text ''2.5'', [200, 201, 202])]"
    using initializeBuilder_filled [OF filled, of rt example_ids]
    by (cases "reconcile_all rt example_ids (sections st)") (auto simp: secs)
  with number show ?thesis
    by (simp add: st_def)
qed

theorem initializeBuilder_fractional_count_witness:
  "map_sum id (\<lambda>st. map (\<lambda>s. (qCount s, map id_q (questions s))) (sections st))
     (initializeBuilder example_runtime example_ids
        (updateSection example_runtime 2 (F_qCount (Text ''2.5'')) example_state))
   = Inr [(Number (Fin 6), [100, 101, 102, 103, 104, 105]),
          (Text ''2.5'', [200, 201, 202])]"
  using initializeBuilder_fractional_count [OF javascript_on_examples_example]
  by simp

lemma ceiling_minus_one_real: "\<lceil>- 1 :: real\<rceil> = - 1"
  by (simp add: ceiling_eq_iff)

lemma sections_initializeBuilder:
  assumes "missing (meta_of st) = []" and "sections st \<noteq> []"
  shows "map_sum id (\<lambda>st'. f (sections st')) (initializeBuilder rt fresh st)
     = map_sum id f (reconcile_all rt fresh (sections st))"
  using initializeBuilder_filled [OF assms(1), of rt fresh] assms(2)
  by (cases "reconcile_all rt fresh (sections st)") simp_all

lemma sections_initializeBuilder_twice:
  assumes "missing (meta_of st) = []" and "sections st \<noteq> []"
  shows "map_sum id (\<lambda>st'. f (sections st'))
       (and_then (initializeBuilder rt fresh st) (initializeBuilder rt fresh'))
     = map_sum id f
       (and_then (reconcile_all rt fresh (sections st)) (reconcile_all rt fresh'))"
proof (cases "reconcile_all rt fresh (sections st)")
  case (Inl err)
  with initializeBuilder_filled [OF assms(1), of rt fresh] show ?thesis
    by (simp add: and_then_def)
next
  case (Inr newSections)
  from reconcile_all_ids [OF Inr] assms(2) have ne: "newSections \<noteq> []"
    by auto
  from initializeBuilder_filled [OF assms(1), of rt fresh] Inr assms(2)
  obtain st1 where first: "initializeBuilder rt fresh st = Inr st1"
    and secs: "sections st1 = newSections" and meta: "meta_of st1 = meta_of st"
    by simp
  from meta assms(1) have "missing (meta_of st1) = []"
    by simp
  from sections_initializeBuilder [OF this, of f rt fresh'] ne secs first Inr
  show ?thesis
    by (simp add: and_then_def)
qed

text \<open>
  Claim C4. The claim is that a second reconciliation changes nothing. The transition
  reads \<open>qCount\<close> as whatever number its text stands for. With \<^verbatim>\<open>-1\<close> written into
  the question count of section 2 after the first transition, \<^verbatim>\<open>slice(0, -1)\<close> drops
  the last question at every transition: of the four questions, three are left after one
  transition and two after the next. With \<^verbatim>\<open>2.5\<close> written there before the first
  transition, the section has three questions after one transition and two after the
  next.
\<close>

theorem initializeBuilder_twice_differs:
  assumes "javascript_on_examples rt"
  shows "map_sum id (\<lambda>st. map (\<lambda>s. (qCount s, map id_q (questions s))) (sections st))
           (initializeBuilder rt example_ids
              (updateSection rt 2 (F_qCount (Text ''-1'')) example_built))
         = Inr [(Number (Fin 6), [100, 101, 102, 103, 104, 105]),
                (Text ''-1'', [200, 201, 202])]
       \<and> map_sum id (\<lambda>st. map (\<lambda>s. (qCount s, map id_q (questions s))) (sections st))
           (and_then
              (initializeBuilder rt example_ids
                 (updateSection rt 2 (F_qCount (Text ''-1'')) example_built))
              (initializeBuilder rt example_ids))
         = Inr [(Number (Fin 6), [100, 101, 102, 103, 104, 105]),
                (Text ''-1'', [200, 201])]
       \<and> map_sum id (\<lambda>st. map (\<lambda>s. (qCount s, map id_q (questions s))) (sections st))
           (initializeBuilder rt example_ids
              (updateSection rt 2 (F_qCount (Text ''2.5'')) example_state))
         = Inr [(Number (Fin 6), [100, 101, 102, 103, 104, 105]),
                (Text ''2.5'', [200, 201, 202])]
       \<and> map_sum id (\<lambda>st. map (\<lambda>s. (qCount s, map id_q (questions s))) (sections st))
           (and_then
              (initializeBuilder rt example_ids
                 (updateSection rt 2 (F_qCount (Text ''2.5'')) example_state))
              (initializeBuilder rt example_ids))
         = Inr [(Number (Fin 6), [100, 101, 102, 103, 104, 105]),
                (Text ''2.5'', [200, 201])]"
proof -
  define negative where "negative = updateSection rt 2 (F_qCount (Text ''-1'')) example_built"
  define fractional where "fractional = updateSection rt 2 (F_qCount (Text ''2.5'')) example_state"
  have minus: "to_number rt (Text ''-1'') = Fin (- 1)"
    and half: "to_number rt (Text ''2.5'') = Fin (5 / 2)"
    using assms by (simp_all add: javascript_on_examples_def to_number_def)
  have filled: "missing (meta_of negative) = []" "missing (meta_of fractional) = []"
    by (simp_all add: negative_def fractional_def updateSection_def example_built_def
        meta_example_state missing_example_meta)
  have negative: "sections negative =
      [sections example_built ! 0,
       (sections example_built ! 1)\<lparr>qCount := Text ''-1'', attemptCount := Number (Fin (- 1))\<rparr>]"
    using assms
    by (simp add: negative_def updateSection_def updateSection_in_def example_built_def
        defaultSections_def javascript_on_examples_def to_number_def)
  have fractional: "sections fractional =
      [defaultSections ! 0, (defaultSections ! 1)\<lparr>qCount := Text ''2.5''\<rparr>]"
    using assms
    by (simp add: fractional_def updateSection_def updateSection_in_def sections_example_state
        defaultSections_def javascript_on_examples_def to_number_def)
  have ne: "sections negative \<noteq> []" "sections fractional \<noteq> []"
    by (simp_all add: negative fractional)
  note eval = reconcile_all_def reconcile_def to_number_def push_new_Fin max_array_length_def
    upt_rec example_ids_def newQuestion_def Let_def slice_def to_integer_def and_then_def
    example_built_def defaultSections_def ceiling_minus_one_real
  have 1: "map_sum id (map (\<lambda>s. (qCount s, map id_q (questions s))))
          (reconcile_all rt example_ids (sections negative))
        = Inr [(Number (Fin 6), [100, 101, 102, 103, 104, 105]),
               (Text ''-1'', [200, 201, 202])]"
    using minus unfolding negative by (simp add: eval)
  have 2: "map_sum id (map (\<lambda>s. (qCount s, map id_q (questions s))))
          (and_then (reconcile_all rt example_ids (sections negative))
             (reconcile_all rt example_ids))
        = Inr [(Number (Fin 6), [100, 101, 102, 103, 104, 105]),
               (Text ''-1'', [200, 201])]"
    using minus unfolding negative by (simp add: eval)
  have 3: "map_sum id (map (\<lambda>s. (qCount s, map id_q (questions s))))
          (reconcile_all rt example_ids (sections fractional))
        = Inr [(Number (Fin 6), [100, 101, 102, 103, 104, 105]),
               (Text ''2.5'', [200, 201, 202])]"
    using half unfolding fractional by (simp add: eval)
  have 4: "map_sum id (map (\<lambda>s. (qCount s, map id_q (questions s))))
          (and_then (reconcile_all rt example_ids (sections fractional))
             (reconcile_all rt example_ids))
        = Inr [(Number (Fin 6), [100, 101, 102, 103, 104, 105]),
               (Text ''2.5'', [200, 201])]"
    using half unfolding fractional by (simp add: eval)
  let ?f = "map (\<lambda>s. (qCount s, map id_q (questions s)))"
  have a: "map_sum id (\<lambda>st. ?f (sections st)) (initializeBuilder rt example_ids negative)
      = Inr [(Number (Fin 6), [100, 101, 102, 103, 104, 105]), (Text ''-1'', [200, 201, 202])]"
    using sections_initializeBuilder [OF filled(1) ne(1), of ?f rt example_ids] 1
    by (simp only:)
  have b: "map_sum id (\<lambda>st. ?f (sections st))
        (and_then (initializeBuilder rt example_ids negative) (initializeBuilder rt example_ids))
      = Inr [(Number (Fin 6), [100, 101, 102, 103, 104, 105]), (Text ''-1'', [200, 201])]"
    using sections_initializeBuilder_twice [OF filled(1) ne(1), of ?f rt example_ids example_ids] 2
    by (simp only:)
  have c: "map_sum id (\<lambda>st. ?f (sections st)) (initializeBuilder rt example_ids fractional)
      = Inr [(Number (Fin 6), [100, 101, 102, 103, 104, 105]), (Text ''2.5'', [200, 201, 202])]"
    using sections_initializeBuilder [OF filled(2) ne(2), of ?f rt example_ids] 3
    by (simp only:)
  have d: "map_sum id (\<lambda>st. ?f (sections st))
        (and_then (initializeBuilder rt example_ids fractional) (initializeBuilder rt example_ids))
      = Inr [(Number (Fin 6), [100, 101, 102, 103, 104, 105]), (Text ''2.5'', [200, 201])]"
    using sections_initializeBuilder_twice [OF filled(2) ne(2), of ?f rt example_ids example_ids] 4
    by (simp only:)
  from a b c d show ?thesis
    unfolding negative_def fractional_def by (intro conjI)
qed

theorem initializeBuilder_twice_differs_witness:
  "map_sum id (\<lambda>st. map (\<lambda>s. (qCount s, map id_q (questions s))) (sections st))
     (initializeBuilder example_runtime example_ids
        (updateSection example_runtime 2 (F_qCount (Text ''-1'')) example_built))
   = Inr [(Number (Fin 6), [100, 101, 102, 103, 104, 105]), (Text ''-1'', [200, 201, 202])]
   \<and> map_sum id (\<lambda>st. map (\<lambda>s. (qCount s, map id_q (questions s))) (sections st))
     (and_then
        (initializeBuilder example_runtime example_ids
           (updateSection example_runtime 2 (F_qCount (Text ''-1'')) example_built))
        (initializeBuilder example_runtime example_ids))
   = Inr [(Number (Fin 6), [100, 101, 102, 103, 104, 105]), (Text ''-1'', [200, 201])]"
  using initializeBuilder_twice_differs [OF javascript_on_examples_example]
  by simp

section \<open>Section identifiers\<close>

lemma fold_max_Max: "fold max xs (a::int) = Max (insert a (set xs))"
  using Max.set_eq_fold [of a xs] by simp

lemma sections_addSection:
  "sections (addSection st) =
     sections st @ [\<lparr>id_s = Max (insert 0 (id_s ` set (sections st))) + 1,
        title = ''Q'' @ show_nat (length (sections st) + 1),
        desc = ''Subjective Questions'', type_s = ''subjective'',
        qCount = Number (Fin 3), attemptCount = Number (Fin 3),
        marksPerQ = Number (Fin 5), questions = []\<rparr>]"
  by (simp add: addSection_def Let_def fold_max_Max)

lemma new_id_greater:
  "s \<in> set secs \<Longrightarrow> id_s s < Max (insert 0 (id_s ` set secs)) + 1"
proof -
  assume "s \<in> set secs"
  then have "id_s s \<le> Max (insert 0 (id_s ` set secs))"
    by (intro Max_ge) auto
  then show ?thesis by simp
qed

lemma new_id_positive: "1 \<le> Max (insert 0 (id_s ` set secs)) + (1::int)"
proof -
  have "0 \<le> Max (insert 0 (id_s ` set secs))"
    by (intro Max_ge) auto
  then show ?thesis by simp
qed

lemma addSection_distinct:
  assumes "distinct (map id_s (sections st))"
  shows "distinct (map id_s (sections (addSection st)))"
proof -
  have "Max (insert 0 (id_s ` set (sections st))) + 1 \<notin> id_s ` set (sections st)"
    using new_id_greater [of _ "sections st"] by force
  with assms show ?thesis
    by (simp add: sections_addSection)
qed

lemma filter_other_id_nonempty:
  assumes "distinct (map id_s secs)" and "1 < length secs"
  shows "filter (\<lambda>s. id_s s \<noteq> i) secs \<noteq> []"
proof
  assume "filter (\<lambda>s. id_s s \<noteq> i) secs = []"
  then have all: "\<forall>s \<in> set secs. id_s s = i"
    by (simp add: filter_empty_conv)
  from assms(2) obtain a b rest where secs: "secs = a # b # rest"
    by (cases secs; cases "tl secs") auto
  with all have "id_s a = id_s b" by simp
  with assms(1) secs show False by simp
qed

lemma deleteSection_distinct:
  assumes "distinct (map id_s (sections st))"
  shows "\<exists>st'. deleteSection i st = Inr st' \<and> distinct (map id_s (sections st'))"
proof (cases "1 < length (sections st)")
  case True
  with assms have "filter (\<lambda>s. id_s s \<noteq> i) (sections st) \<noteq> []"
    by (rule filter_other_id_nonempty)
  moreover have "distinct (map id_s (filter (\<lambda>s. id_s s \<noteq> i) (sections st)))"
    using assms by (rule distinct_map_filter)
  ultimately show ?thesis using True
    by (auto simp: deleteSection_def Let_def split: list.splits)
next
  case False
  with assms show ?thesis by (simp add: deleteSection_def)
qed

lemma run_ops_distinct:
  "distinct (map id_s (sections st)) \<Longrightarrow>
     \<exists>st'. run_ops ops st = Inr st' \<and> distinct (map id_s (sections st'))"
proof (induction ops arbitrary: st)
  case Nil
  then show ?case by simp
next
  case (Cons op ops)
  show ?case
  proof (cases op)
    case Add
    with Cons.IH [OF addSection_distinct [OF Cons.prems]] show ?thesis by simp
  next
    case (Delete i)
    from deleteSection_distinct [OF Cons.prems, of i]
    obtain st' where "deleteSection i st = Inr st'" and "distinct (map id_s (sections st'))"
      by blast
    with Cons.IH [of st'] Delete show ?thesis by simp
  qed
qed

text \<open>
  Claim C10. \<^verbatim>\<open>addSection\<close> appends one section and changes no other. The
  identifier of the new section is one more than the greatest of 0 and the identifiers in
  use, so it is at least 1 and greater than every identifier in use. Started in a state
  that holds the default sections, every sequence of \<^verbatim>\<open>addSection\<close> and
  \<^verbatim>\<open>deleteSection\<close> calls runs without an error and ends in a state whose section
  identifiers are pairwise distinct.
\<close>

theorem addSection_fresh_id:
  "butlast (sections (addSection st)) = sections st
   \<and> id_s (last (sections (addSection st))) = Max (insert 0 (id_s ` set (sections st))) + 1
   \<and> 1 \<le> id_s (last (sections (addSection st)))
   \<and> (\<forall>s \<in> set (sections st). id_s s < id_s (last (sections (addSection st))))
   \<and> (sections st = defaultSections \<longrightarrow>
        (\<exists>st'. run_ops ops st = Inr st' \<and> distinct (map id_s (sections st'))))"
proof -
  have "sections st = defaultSections \<longrightarrow>
        (\<exists>st'. run_ops ops st = Inr st' \<and> distinct (map id_s (sections st')))"
  proof
    assume "sections st = defaultSections"
    then have "distinct (map id_s (sections st))"
      by (simp add: defaultSections_def)
    then show "\<exists>st'. run_ops ops st = Inr st' \<and> distinct (map id_s (sections st'))"
      by (rule run_ops_distinct)
  qed
  then show ?thesis
    using new_id_greater [of _ "sections st"] new_id_positive [of "sections st"]
    by (simp add: sections_addSection)
qed

lemma run_ops_example:
  "\<exists>st'. run_ops [Add, Delete 1, Add] (initial_state ''2025-2026'') = Inr st'
      \<and> map id_s (sections st') = [2, 3, 4]"
  by (simp add: initial_state_def defaultSections_def addSection_def deleteSection_def Let_def)

theorem addSection_fresh_id_witness:
  "id_s (last (sections (addSection (initial_state ''2025-2026'')))) = 3
   \<and> (\<exists>st'. run_ops [Add, Delete 1, Add] (initial_state ''2025-2026'') = Inr st'
         \<and> map id_s (sections st') = [2, 3, 4]
         \<and> distinct (map id_s (sections st')))"
proof -
  have start: "sections (initial_state ''2025-2026'') = defaultSections"
    by (simp add: initial_state_def)
  from addSection_fresh_id [of "initial_state ''2025-2026''" "[Add, Delete 1, Add]"] start
  have new: "id_s (last (sections (addSection (initial_state ''2025-2026''))))
      = Max (insert 0 (id_s ` set defaultSections)) + 1"
    and "\<exists>st'. run_ops [Add, Delete 1, Add] (initial_state ''2025-2026'') = Inr st'
         \<and> distinct (map id_s (sections st'))"
    by simp_all
  then obtain st' where run: "run_ops [Add, Delete 1, Add] (initial_state ''2025-2026'') = Inr st'"
    and dist: "distinct (map id_s (sections st'))"
    by blast
  from run run_ops_example have "map id_s (sections st') = [2, 3, 4]"
    by auto
  with run dist new show ?thesis
    by (simp add: defaultSections_def)
qed

section \<open>Properties of the generation transport\<close>

lemma callGemini_from_returns:
  "i \<le> 3 \<Longrightarrow> attempt (net i) = Inr v
     \<Longrightarrow> callGemini_from net i waited = \<lparr>outcome = Inr v, slept = waited, attempts = i + 1\<rparr>"
  by (subst callGemini_from.simps) (simp add: delays_def)

lemma callGemini_from_step:
  "i < 3 \<Longrightarrow> attempt (net i) = Inl err
     \<Longrightarrow> callGemini_from net i waited = callGemini_from net (Suc i) (waited @ [delays ! i])"
  by (subst callGemini_from.simps) (simp add: delays_def)

lemma callGemini_from_retries:
  assumes "attempt (net i) = Inl err"
  shows "i = 0 \<Longrightarrow> callGemini_from net i waited = callGemini_from net 1 (waited @ [1000])"
    and "i = 1 \<Longrightarrow> callGemini_from net i waited = callGemini_from net 2 (waited @ [2000])"
    and "i = 2 \<Longrightarrow> callGemini_from net i waited = callGemini_from net 3 (waited @ [4000])"
  using assms callGemini_from_step [of i net err waited]
  by (simp_all add: delays_def numeral_2_eq_2 numeral_3_eq_3)

lemma callGemini_from_throws:
  "attempt (net 3) = Inl err
     \<Longrightarrow> callGemini_from net 3 waited = \<lparr>outcome = Inl err, slept = waited, attempts = 4\<rparr>"
  by (subst callGemini_from.simps) (simp add: delays_def)

lemma callGemini_unfolded:
  "callGemini net =
     (case attempt (net 0) of
        Inr v \<Rightarrow> \<lparr>outcome = Inr v, slept = [], attempts = 1\<rparr>
      | Inl e0 \<Rightarrow>
     (case attempt (net 1) of
        Inr v \<Rightarrow> \<lparr>outcome = Inr v, slept = [1000], attempts = 2\<rparr>
      | Inl e1 \<Rightarrow>
     (case attempt (net 2) of
        Inr v \<Rightarrow> \<lparr>outcome = Inr v, slept = [1000, 2000], attempts = 3\<rparr>
      | Inl e2 \<Rightarrow>
     (case attempt (net 3) of
        Inr v \<Rightarrow> \<lparr>outcome = Inr v, slept = [1000, 2000, 4000], attempts = 4\<rparr>
      | Inl e3 \<Rightarrow> \<lparr>outcome = Inl e3, slept = [1000, 2000, 4000], attempts = 4\<rparr>))))"
proof (cases "attempt (net 0)")
  case (Inr v)
  then show ?thesis
    using callGemini_from_returns [of 0 net v "[]"] by (simp add: callGemini_def)
next
  case e0: (Inl e0)
  then have step0: "callGemini net = callGemini_from net 1 [1000]"
    using callGemini_from_retries(1) [of net 0 e0 "[]"] by (simp add: callGemini_def)
  show ?thesis
  proof (cases "attempt (net 1)")
    case (Inr v)
    then show ?thesis
      using callGemini_from_returns [of 1 net v "[1000]"] e0 step0 by simp
  next
    case e1: (Inl e1)
    then have step1: "callGemini net = callGemini_from net 2 [1000, 2000]"
      using callGemini_from_retries(2) [of net 1 e1 "[1000]"] step0 by simp
    show ?thesis
    proof (cases "attempt (net 2)")
      case (Inr v)
      then show ?thesis
        using callGemini_from_returns [of 2 net v "[1000, 2000]"] e0 e1 step1 by simp
    next
      case e2: (Inl e2)
      then have step2: "callGemini net = callGemini_from net 3 [1000, 2000, 4000]"
        using callGemini_from_retries(3) [of net 2 e2 "[1000, 2000]"] step1 by simp
      show ?thesis
      proof (cases "attempt (net 3)")
        case (Inr v)
        then show ?thesis
          using callGemini_from_returns [of 3 net v "[1000, 2000, 4000]"] e0 e1 e2 step2 by simp
      next
        case (Inl e3)
        then show ?thesis
          using callGemini_from_throws [of net e3 "[1000, 2000, 4000]"] e0 e1 e2 step2 by simp
      qed
    qed
  qed
qed

lemma attempt_fails_iff:
  "isl (attempt out) \<longleftrightarrow>
     \<not> (\<exists>status data. out = Response status (Inr data) \<and> response_ok status \<and> \<not> nullish data)"
proof (cases out)
  case (Rejected err)
  then show ?thesis by simp
next
  case (Response status body)
  then show ?thesis
    by (cases body) (auto simp: candidate_text_def)
qed


text \<open>
  Claim C6, amended. A call makes at most four requests and sleeps, in this order, as
  many of the delays 1000, 2000 and 4000 ms as it makes requests after the first. An
  attempt succeeds exactly when its response has a success status and a body that is JSON
  text other than \<^verbatim>\<open>null\<close>; a rejected request throws its own error and a response
  without a success status throws an API error. The first successful attempt among the
  four ends the call with its value, and when all four fail, the call throws the error of
  the fourth.
\<close>

theorem callGemini_retry_policy:
  "attempts (callGemini net) \<le> 4
   \<and> slept (callGemini net) = take (attempts (callGemini net) - 1) [1000, 2000, 4000]
   \<and> (\<forall>k<4. (\<forall>j<k. isl (attempt (net j))) \<and> \<not> isl (attempt (net k)) \<longrightarrow>
         callGemini net = \<lparr>outcome = attempt (net k), slept = take k [1000, 2000, 4000],
                           attempts = k + 1\<rparr>)
   \<and> ((\<forall>j<4. isl (attempt (net j))) \<longrightarrow>
         callGemini net = \<lparr>outcome = attempt (net 3), slept = [1000, 2000, 4000],
                           attempts = 4\<rparr>)
   \<and> (\<forall>out. \<not> isl (attempt out) \<longleftrightarrow>
         (\<exists>status data. out = Response status (Inr data) \<and> response_ok status
            \<and> \<not> nullish data))
   \<and> (\<forall>err. attempt (Rejected err) = Inl err)
   \<and> (\<forall>status body. \<not> response_ok status \<longrightarrow>
         attempt (Response status body) = Inl (ApiError status))"
proof -
  have bound: "attempts (callGemini net) \<le> 4"
    by (simp add: callGemini_unfolded split: sum.splits)
  have waits: "slept (callGemini net) = take (attempts (callGemini net) - 1) [1000, 2000, 4000]"
    by (simp add: callGemini_unfolded split: sum.splits)
  have first: "\<forall>k<4. (\<forall>j<k. isl (attempt (net j))) \<and> \<not> isl (attempt (net k)) \<longrightarrow>
         callGemini net = \<lparr>outcome = attempt (net k), slept = take k [1000, 2000, 4000],
                           attempts = k + 1\<rparr>"
  proof (intro allI impI)
    fix k :: nat
    assume "k < 4" and h: "(\<forall>j<k. isl (attempt (net j))) \<and> \<not> isl (attempt (net k))"
    then consider "k = 0" | "k = 1" | "k = 2" | "k = 3"
      by linarith
    then show "callGemini net = \<lparr>outcome = attempt (net k),
        slept = take k [1000, 2000, 4000], attempts = k + 1\<rparr>"
    proof cases
      case 1
      with h show ?thesis
        by (auto simp: callGemini_unfolded isl_def split: sum.splits)
    next
      case 2
      with h have "isl (attempt (net 0))" and "\<not> isl (attempt (net 1))"
        by simp_all
      with 2 show ?thesis
        by (auto simp: callGemini_unfolded isl_def split: sum.splits)
    next
      case 3
      with h have "isl (attempt (net 0))" and "isl (attempt (net 1))"
        and "\<not> isl (attempt (net 2))"
        by simp_all
      with 3 show ?thesis
        by (auto simp: callGemini_unfolded isl_def split: sum.splits)
    next
      case 4
      with h have "isl (attempt (net 0))" and "isl (attempt (net 1))"
        and "isl (attempt (net 2))" and "\<not> isl (attempt (net 3))"
        by simp_all
      with 4 show ?thesis
        by (auto simp: callGemini_unfolded isl_def split: sum.splits)
    qed
  qed
  have last: "(\<forall>j<4. isl (attempt (net j))) \<longrightarrow>
         callGemini net = \<lparr>outcome = attempt (net 3), slept = [1000, 2000, 4000],
                           attempts = 4\<rparr>"
  proof
    assume "\<forall>j<4. isl (attempt (net j))"
    then have "isl (attempt (net 0))" and "isl (attempt (net 1))"
      and "isl (attempt (net 2))" and "isl (attempt (net 3))"
      by simp_all
    then show "callGemini net = \<lparr>outcome = attempt (net 3), slept = [1000, 2000, 4000],
                           attempts = 4\<rparr>"
      by (auto simp: callGemini_unfolded isl_def split: sum.splits)
  qed
  have kinds: "\<forall>out. \<not> isl (attempt out) \<longleftrightarrow>
         (\<exists>status data. out = Response status (Inr data) \<and> response_ok status
            \<and> \<not> nullish data)"
    using attempt_fails_iff by blast
  have errors: "(\<forall>err. attempt (Rejected err) = Inl err)
   \<and> (\<forall>status body. \<not> response_ok status \<longrightarrow>
         attempt (Response status body) = Inl (ApiError status))"
    by simp
  from bound waits first last kinds errors show ?thesis
    by blast
qed


theorem callGemini_retry_policy_witness:
  "callGemini net_third_time
     = \<lparr>outcome = Inr (Str ''[]''), slept = [1000, 2000], attempts = 3\<rparr>
   \<and> callGemini (\<lambda>i. Response (500 + i) (Inr example_reply))
     = \<lparr>outcome = Inl (ApiError 503), slept = [1000, 2000, 4000], attempts = 4\<rparr>"
proof -
  have reply: "candidate_text example_reply = Inr (Str ''[]'')"
    by (simp add: candidate_text_def candidate_path_def example_reply_def opt_named_def
        opt_index_def)
  have third: "(\<forall>j<2. isl (attempt (net_third_time j))) \<and> \<not> isl (attempt (net_third_time 2))"
    and result: "attempt (net_third_time 2) = Inr (Str ''[]'')"
    by (simp_all add: net_third_time_def response_ok_def reply numeral_2_eq_2 All_less_Suc)
  have never: "\<forall>j<4. isl (attempt (Response (500 + j) (Inr example_reply)))"
    by (simp add: response_ok_def)
  have "callGemini net_third_time
     = \<lparr>outcome = attempt (net_third_time 2), slept = take 2 [1000, 2000, 4000],
        attempts = 2 + 1\<rparr>"
    using third
      callGemini_retry_policy [of net_third_time, THEN conjunct2, THEN conjunct2,
        THEN conjunct1, rule_format, of 2]
    by simp
  moreover have "callGemini (\<lambda>i. Response (500 + i) (Inr example_reply))
     = \<lparr>outcome = attempt (Response (500 + 3) (Inr example_reply)),
        slept = [1000, 2000, 4000], attempts = 4\<rparr>"
    using never
      callGemini_retry_policy [of "\<lambda>i. Response (500 + i) (Inr example_reply)",
        THEN conjunct2, THEN conjunct2, THEN conjunct2, THEN conjunct1, rule_format]
    by simp
  ultimately show ?thesis
    by (simp add: result response_ok_def)
qed

text \<open>
  The claim without the amendment fails: a success status alone does not end the loop.
  The first response of \<open>net_unreadable_first\<close> has status 200 and a body that is no
  JSON text; the call sleeps 1000 ms and makes a second request.
\<close>

theorem callGemini_success_status_retried:
  "net_unreadable_first 0 = Response 200 (Inl SyntaxError)
   \<and> response_ok 200
   \<and> callGemini net_unreadable_first
       = \<lparr>outcome = Inr (Str ''[]''), slept = [1000], attempts = 2\<rparr>"
  by (simp add: callGemini_unfolded net_unreadable_first_def response_ok_def candidate_text_def
      candidate_path_def example_reply_def opt_named_def opt_index_def)

text \<open>
  Claim C9, amended. A response without a success status fails the attempt with an API
  error, and so does, with its own error, a body that is no JSON text and, with a
  TypeError, the body \<^verbatim>\<open>null\<close>. A failed attempt before the fourth is followed by a
  sleep and the next attempt; the failure of the fourth is thrown. A response with a
  success status and any other JSON body is a success, also when the body does not hold
  the candidate text: the call then returns the empty string, without a further attempt.
\<close>

theorem attempt_failure_kinds:
  "(\<not> response_ok status \<longrightarrow> attempt (Response status body) = Inl (ApiError status))
   \<and> (response_ok status \<longrightarrow> attempt (Response status (Inl err)) = Inl err)
   \<and> (response_ok status \<and> nullish data \<longrightarrow>
         attempt (Response status (Inr data)) = Inl TypeError)
   \<and> (response_ok status \<and> \<not> nullish data \<and> truthy (candidate_path data) \<longrightarrow>
         attempt (Response status (Inr data)) = Inr (candidate_path data))
   \<and> (response_ok status \<and> \<not> nullish data \<and> \<not> truthy (candidate_path data) \<longrightarrow>
         attempt (Response status (Inr data)) = Inr (Str []))
   \<and> (i < 3 \<and> isl (attempt (net i)) \<longrightarrow>
         callGemini_from net i waited
           = callGemini_from net (i + 1) (waited @ [[1000, 2000, 4000] ! i]))
   \<and> (isl (attempt (net 3)) \<longrightarrow>
         callGemini_from net 3 waited
           = \<lparr>outcome = attempt (net 3), slept = waited, attempts = 4\<rparr>)
   \<and> (i \<le> 3 \<and> \<not> isl (attempt (net i)) \<longrightarrow>
         callGemini_from net i waited
           = \<lparr>outcome = attempt (net i), slept = waited, attempts = i + 1\<rparr>)"
proof -
  have retry: "i < 3 \<and> isl (attempt (net i)) \<longrightarrow>
         callGemini_from net i waited
           = callGemini_from net (i + 1) (waited @ [[1000, 2000, 4000] ! i])"
    using callGemini_from_step [of i net _ waited]
    by (auto simp: isl_def delays_def)
  have throw: "isl (attempt (net 3)) \<longrightarrow>
         callGemini_from net 3 waited
           = \<lparr>outcome = attempt (net 3), slept = waited, attempts = 4\<rparr>"
    using callGemini_from_throws [of net _ waited]
    by (auto simp: isl_def)
  have return: "i \<le> 3 \<and> \<not> isl (attempt (net i)) \<longrightarrow>
         callGemini_from net i waited
           = \<lparr>outcome = attempt (net i), slept = waited, attempts = i + 1\<rparr>"
    using callGemini_from_returns [of i net _ waited]
    by (cases "attempt (net i)") auto
  have kinds: "(\<not> response_ok status \<longrightarrow> attempt (Response status body) = Inl (ApiError status))
   \<and> (response_ok status \<longrightarrow> attempt (Response status (Inl err)) = Inl err)
   \<and> (response_ok status \<and> nullish data \<longrightarrow>
         attempt (Response status (Inr data)) = Inl TypeError)
   \<and> (response_ok status \<and> \<not> nullish data \<and> truthy (candidate_path data) \<longrightarrow>
         attempt (Response status (Inr data)) = Inr (candidate_path data))
   \<and> (response_ok status \<and> \<not> nullish data \<and> \<not> truthy (candidate_path data) \<longrightarrow>
         attempt (Response status (Inr data)) = Inr (Str []))"
    by (simp add: candidate_text_def)
  from kinds retry throw return show ?thesis
    by blast
qed

theorem attempt_failure_kinds_witness:
  "attempt (Response 404 (Inr example_reply)) = Inl (ApiError 404)
   \<and> attempt (Response 200 (Inl SyntaxError)) = Inl SyntaxError
   \<and> attempt (Response 200 (Inr Null)) = Inl TypeError
   \<and> attempt (Response 200 (Inr example_reply)) = Inr (Str ''[]'')
   \<and> attempt (Response 200 (Inr (Obj []))) = Inr (Str [])
   \<and> callGemini_from net_unreadable_first 0 [] = callGemini_from net_unreadable_first 1 [1000]"
proof -
  have path: "candidate_path example_reply = Str ''[]''"
    and none: "candidate_path (Obj []) = Undefined"
    and reply: "\<not> nullish example_reply"
    by (simp_all add: candidate_path_def example_reply_def opt_named_def opt_index_def)
  have ok: "response_ok 200" and missing: "\<not> response_ok 404"
    by (simp_all add: response_ok_def)
  have first: "isl (attempt (net_unreadable_first 0))"
    by (simp add: net_unreadable_first_def ok)
  from attempt_failure_kinds [of 404 "Inr example_reply" SyntaxError Null 0 net_unreadable_first "[]"]
    missing first
  have "attempt (Response 404 (Inr example_reply)) = Inl (ApiError 404)"
    and "callGemini_from net_unreadable_first 0 [] = callGemini_from net_unreadable_first 1 [1000]"
    by simp_all
  moreover from attempt_failure_kinds [of 200 "Inr Null" SyntaxError Null 0 net_unreadable_first "[]"] ok
  have "attempt (Response 200 (Inl SyntaxError)) = Inl SyntaxError"
    and "attempt (Response 200 (Inr Null)) = Inl TypeError"
    by simp_all
  moreover from attempt_failure_kinds [of 200 "Inr Null" SyntaxError example_reply 0 net_unreadable_first "[]"]
    ok path reply
  have "attempt (Response 200 (Inr example_reply)) = Inr (Str ''[]'')"
    by simp
  moreover from attempt_failure_kinds [of 200 "Inr Null" SyntaxError "Obj []" 0 net_unreadable_first "[]"]
    ok none
  have "attempt (Response 200 (Inr (Obj []))) = Inr (Str [])"
    by simp
  ultimately show ?thesis by simp
qed

text \<open>
  The claim without the amendment fails. Every response of \<open>net_empty_object\<close> has
  status 200 and the body \<^verbatim>\<open>{}\<close>, which holds no candidate text; the call returns the
  empty string after one request.
\<close>

theorem callGemini_missing_text_succeeds:
  "net_empty_object 0 = Response 200 (Inr (Obj []))
   \<and> candidate_path (Obj []) = Undefined
   \<and> callGemini net_empty_object = \<lparr>outcome = Inr (Str []), slept = [], attempts = 1\<rparr>"
  by (simp add: callGemini_unfolded net_empty_object_def response_ok_def candidate_text_def
      candidate_path_def opt_named_def opt_index_def)

section \<open>Properties of the bulk fill\<close>

lemma callGemini_reply_with:
  "t \<noteq> [] \<Longrightarrow> net 0 = reply_with t
     \<Longrightarrow> callGemini net = \<lparr>outcome = Inr (Str t), slept = [], attempts = 1\<rparr>"
  by (simp add: callGemini_unfolded reply_with_def response_ok_def candidate_text_def
      candidate_path_def opt_named_def opt_index_def)

lemma nth_fill_section_questions:
  assumes "k < length (questions s)"
  shows "questions (fill_section (id_s s) generatedData s) ! k
     = merge_generated (type_s s) generatedData k (questions s ! k)"
  using assms by (simp add: fill_section_def nth_enumerate_eq)

lemma length_fill_section [simp]:
  "length (questions (fill_section i generatedData s)) = length (questions s)"
  by (simp add: fill_section_def)

lemma fill_section_other: "id_s s \<noteq> i \<Longrightarrow> fill_section i generatedData s = s"
  by (simp add: fill_section_def)

lemma executeMagicFill_parsed:
  assumes "outcome (callGemini net) = Inr (Str rawText)"
    and "parse (strip_fences rawText) = Some generatedData"
    and "\<not> nullish generatedData"
    and "i \<in> id_s ` set (sections st)"
  shows "executeMagicFill parse net (Some i) st
     = Inr (st\<lparr>sections := map (fill_section i generatedData) (sections st)\<rparr>)"
proof -
  from assms(4) obtain sec where "find (\<lambda>s. id_s s = i) (sections st) = Some sec"
    using find_id_None [of i "sections st"] by auto
  with assms(1,2,3) show ?thesis
    by (simp add: executeMagicFill_def)
qed

lemma executeMagicFill_unparsed:
  assumes "outcome (callGemini net) = Inr (Str rawText)"
    and "parse (strip_fences rawText) = None"
  shows "executeMagicFill parse net sectionId st
     = Inr (if sectionId = None \<or> the sectionId \<notin> id_s ` set (sections st) then st
            else generation_failed st)"
proof (cases sectionId)
  case None
  then show ?thesis by (simp add: executeMagicFill_def)
next
  case (Some i)
  show ?thesis
  proof (cases "find (\<lambda>s. id_s s = i) (sections st)")
    case None
    with Some show ?thesis
      using find_id_None [of i "sections st"] by (simp add: executeMagicFill_def)
  next
    case found: (Some sec)
    with Some assms show ?thesis
      using find_id_None [of i "sections st"] by (simp add: executeMagicFill_def)
  qed
qed


text \<open>
  Claim C8. Suppose the transport returns a text and \<^verbatim>\<open>JSON.parse\<close> throws on the
  text without its fences. Then the bulk fill ends without an uncaught error in a state
  with the sections, and so every question, and the metadata as they were; if the
  section exists, the state differs from the one before only by the alert.
\<close>

theorem executeMagicFill_unparseable_reply:
  assumes "outcome (callGemini net) = Inr (Str rawText)"
    and "parse (strip_fences rawText) = None"
  shows "\<exists>st'. executeMagicFill parse net sectionId st = Inr st'
           \<and> sections st' = sections st \<and> meta_of st' = meta_of st
           \<and> (\<forall>i. sectionId = Some i \<and> i \<in> id_s ` set (sections st) \<longrightarrow>
                  st' = st\<lparr>alerts := alerts st @ [''AI Generation failed. Try again.'']\<rparr>)"
  using executeMagicFill_unparsed [of net rawText parse sectionId st] assms
  by (auto simp: generation_failed_def)

lemma strip_fences_example: "strip_fences example_fenced = example_text"
  by (simp add: strip_fences_def example_fenced_def example_text_def trim_def is_space_def)

lemma sections_example_tagged:
  "map id_s (sections example_tagged) = [1, 2]"
  by (simp add: example_tagged_def example_built_def defaultSections_def)

theorem executeMagicFill_unparseable_reply_witness:
  "\<exists>st'. executeMagicFill example_parse (\<lambda>i. reply_with ''Sorry, no questions.'') (Some 2)
           example_tagged = Inr st'
      \<and> sections st' = sections example_tagged
      \<and> st' = example_tagged\<lparr>alerts := alerts example_tagged @ [''AI Generation failed. Try again.'']\<rparr>"
proof -
  have call: "outcome (callGemini (\<lambda>i. reply_with ''Sorry, no questions.''))
      = Inr (Str ''Sorry, no questions.'')"
    using callGemini_reply_with [of "''Sorry, no questions.''" "\<lambda>i. reply_with ''Sorry, no questions.''"]
    by simp
  have unparsed: "example_parse (strip_fences ''Sorry, no questions.'') = None"
    by (simp add: example_parse_def strip_fences_def trim_def is_space_def example_text_def)
  have "2 \<in> id_s ` set (sections example_tagged)"
    using sections_example_tagged by (metis list.set_intros(1,2) set_map)
  with executeMagicFill_unparseable_reply
      [of "\<lambda>i. reply_with ''Sorry, no questions.''" "''Sorry, no questions.''" example_parse
        "Some 2" example_tagged] call unparsed
  show ?thesis by auto
qed


text \<open>
  Claim C7, amended. Suppose the transport returns a text on which \<^verbatim>\<open>JSON.parse\<close>
  gives the list \<open>items\<close>, and \<open>s\<close> is the section with the given identifier.
  Then the bulk fill ends in a state in which the sections with another identifier are
  as before and \<open>s\<close> differs in its questions only, of which it has as many as before.
  Question \<open>k\<close> is unchanged when the list has no item \<open>k\<close> or a falsy one (such as
  \<^verbatim>\<open>null\<close>). Otherwise it keeps its identifier and image and takes the item's text;
  its cognitive tag is the item's or else \<^verbatim>\<open>R\<close>, its outcome tag is the item's or else
  \<^verbatim>\<open>CO1\<close>; its options are, in a multiple-choice section, the item's or else its own,
  and in any other section the empty list.
\<close>

theorem executeMagicFill_merges:
  assumes "outcome (callGemini net) = Inr (Str rawText)"
    and "parse (strip_fences rawText) = Some (Arr items)"
    and "j < length (sections st)"
    and "s = sections st ! j"
    and "id_s s = i"
  shows "\<exists>st'. executeMagicFill parse net (Some i) st = Inr st'
           \<and> length (sections st') = length (sections st)
           \<and> (\<forall>m<length (sections st).
                 id_s (sections st ! m) \<noteq> i \<longrightarrow> sections st' ! m = sections st ! m)
           \<and> sections st' ! j = s\<lparr>questions := questions (sections st' ! j)\<rparr>
           \<and> length (questions (sections st' ! j)) = length (questions s)
           \<and> (\<forall>k<length (questions s).
                 questions (sections st' ! j) ! k =
                   (if k < length items \<and> truthy (items ! k)
                    then (questions s ! k)
                      \<lparr>text_q := get_named (items ! k) ''text'',
                       options :=
                         (if type_s s = ''mcq''
                          then (if truthy (get_named (items ! k) ''options'')
                                then get_named (items ! k) ''options''
                                else options (questions s ! k))
                          else Arr []),
                       bloom := (if truthy (get_named (items ! k) ''bloom'')
                                 then get_named (items ! k) ''bloom'' else Str ''R''),
                       co := (if truthy (get_named (items ! k) ''co'')
                              then get_named (items ! k) ''co'' else Str ''CO1'')\<rparr>
                    else questions s ! k))"
proof -
  define st' where "st' = st\<lparr>sections := map (fill_section i (Arr items)) (sections st)\<rparr>"
  have "i \<in> id_s ` set (sections st)"
    using assms(3,4,5) by (metis imageI nth_mem)
  then have run: "executeMagicFill parse net (Some i) st = Inr st'"
    using executeMagicFill_parsed [of net rawText parse "Arr items" i st] assms(1,2)
    by (simp add: st'_def)
  have len: "length (sections st') = length (sections st)"
    by (simp add: st'_def)
  have others: "\<forall>m<length (sections st).
      id_s (sections st ! m) \<noteq> i \<longrightarrow> sections st' ! m = sections st ! m"
    by (simp add: st'_def fill_section_other)
  have s': "sections st' ! j = fill_section (id_s s) (Arr items) s"
    using assms(3,4,5) by (simp add: st'_def)
  have frame: "sections st' ! j = s\<lparr>questions := questions (sections st' ! j)\<rparr>"
    unfolding s' by (simp add: fill_section_def)
  have qlen: "length (questions (sections st' ! j)) = length (questions s)"
    unfolding s' by simp
  have merged: "\<forall>k<length (questions s).
                 questions (sections st' ! j) ! k =
                   (if k < length items \<and> truthy (items ! k)
                    then (questions s ! k)
                      \<lparr>text_q := get_named (items ! k) ''text'',
                       options :=
                         (if type_s s = ''mcq''
                          then (if truthy (get_named (items ! k) ''options'')
                                then get_named (items ! k) ''options''
                                else options (questions s ! k))
                          else Arr []),
                       bloom := (if truthy (get_named (items ! k) ''bloom'')
                                 then get_named (items ! k) ''bloom'' else Str ''R''),
                       co := (if truthy (get_named (items ! k) ''co'')
                              then get_named (items ! k) ''co'' else Str ''CO1'')\<rparr>
                    else questions s ! k)"
    unfolding s' by (simp add: nth_fill_section_questions merge_generated_def Let_def)
  from run len others frame qlen merged show ?thesis
    by blast
qed

lemma call_example_fenced:
  "outcome (callGemini (\<lambda>i. reply_with example_fenced)) = Inr (Str example_fenced)"
  using callGemini_reply_with [of example_fenced "\<lambda>i. reply_with example_fenced"]
  by (simp add: example_fenced_def)

lemma parse_example_fenced:
  "example_parse (strip_fences example_fenced) = Some example_items"
  by (simp add: strip_fences_example example_parse_def)

lemma section2_example_tagged:
  "sections example_tagged ! 1 =
     \<lparr>id_s = 2, title = ''Q2'', desc = ''Short Notes / Answer'', type_s = ''subjective'',
      qCount = Number (Fin 4), attemptCount = Number (Fin 2), marksPerQ = Number (Fin 3),
      questions =
        [\<lparr>id_q = 200, text_q = Str ''What is a queue?'', options = Arr [], image_q = Null,
           co = Str ''CO3'', bloom = Str ''AN''\<rparr>,
         \<lparr>id_q = 201, text_q = Str [], options = Arr [], image_q = Null,
           co = Str ''CO1'', bloom = Str ''R''\<rparr>,
         \<lparr>id_q = 202, text_q = Str [], options = Arr [], image_q = Null,
           co = Str ''CO1'', bloom = Str ''R''\<rparr>,
         \<lparr>id_q = 203, text_q = Str [], options = Arr [], image_q = Null,
           co = Str ''CO1'', bloom = Str ''R''\<rparr>]\<rparr>"
  by (simp add: example_tagged_def example_built_def defaultSections_def example_ids_def
      newQuestion_def)

lemma length_sections_example_tagged: "length (sections example_tagged) = 2"
  using sections_example_tagged by (metis length_map length_Cons list.size(3) Suc_1 One_nat_def)

theorem executeMagicFill_merges_witness:
  "\<exists>st'. executeMagicFill example_parse (\<lambda>i. reply_with example_fenced) (Some 2) example_tagged
           = Inr st'
      \<and> text_q (questions (sections st' ! 1) ! 0) = Str ''Define a stack.''
      \<and> id_q (questions (sections st' ! 1) ! 0) = 200
      \<and> questions (sections st' ! 1) ! 1 = questions (sections example_tagged ! 1) ! 1"
proof -
  have parsed: "example_parse (strip_fences example_fenced)
      = Some (Arr [Obj [(''text'', Str ''Define a stack.'')]])"
    by (simp add: parse_example_fenced example_items_def)
  have position: "1 < length (sections example_tagged)"
    by (simp add: length_sections_example_tagged)
  have ident: "id_s (sections example_tagged ! 1) = 2"
    using section2_example_tagged by simp
  from executeMagicFill_merges [of "\<lambda>i. reply_with example_fenced" example_fenced example_parse
      "[Obj [(''text'', Str ''Define a stack.'')]]" 1 example_tagged
      "sections example_tagged ! 1" 2, OF call_example_fenced parsed position refl ident]
  show ?thesis
    apply (elim exE conjE)
    subgoal for st'
      using section2_example_tagged
      by (intro exI [of _ st']) (simp add: All_less_Suc)
    done
qed

text \<open>
  The claim without the amendment fails. The first question of section 2 in
  \<open>example_tagged\<close> is tagged \<^verbatim>\<open>AN\<close> and \<^verbatim>\<open>CO3\<close>; the only item of the reply has
  a text and no tags. After the bulk fill the question is tagged \<^verbatim>\<open>R\<close> and \<^verbatim>\<open>CO1\<close>,
  not with the tags it had.
\<close>

theorem executeMagicFill_resets_tags:
  "bloom (questions (sections example_tagged ! 1) ! 0) = Str ''AN''
   \<and> co (questions (sections example_tagged ! 1) ! 0) = Str ''CO3''
   \<and> example_parse (strip_fences example_fenced) = Some example_items
   \<and> get_named (get_index example_items 0) ''bloom'' = Undefined
   \<and> get_named (get_index example_items 0) ''co'' = Undefined
   \<and> executeMagicFill example_parse (\<lambda>i. reply_with example_fenced) (Some 2) example_tagged
       = Inr (example_tagged\<lparr>sections :=
                map (fill_section 2 example_items) (sections example_tagged)\<rparr>)
   \<and> bloom (questions (map (fill_section 2 example_items) (sections example_tagged) ! 1) ! 0)
       = Str ''R''
   \<and> co (questions (map (fill_section 2 example_items) (sections example_tagged) ! 1) ! 0)
       = Str ''CO1''"
proof -
  have "2 \<in> id_s ` set (sections example_tagged)"
    using sections_example_tagged by (metis list.set_intros(1,2) set_map)
  then have run: "executeMagicFill example_parse (\<lambda>i. reply_with example_fenced) (Some 2)
      example_tagged
       = Inr (example_tagged\<lparr>sections :=
                map (fill_section 2 example_items) (sections example_tagged)\<rparr>)"
    using executeMagicFill_parsed [of "\<lambda>i. reply_with example_fenced" example_fenced
        example_parse example_items 2 example_tagged]
      call_example_fenced parse_example_fenced
    by (simp add: example_items_def)
  have after: "map (fill_section 2 example_items) (sections example_tagged) ! 1
      = fill_section 2 example_items (sections example_tagged ! 1)"
    by (simp add: length_sections_example_tagged)
  show ?thesis
    unfolding after using section2_example_tagged
    by (simp add: run parse_example_fenced fill_section_def merge_generated_def
        example_items_def)
qed

end
